theory Spec2Isabelle
  imports Main "HOL-Library.Sublist"
begin

section \<open>The account-statement page script (static/app.js)\<close>

text \<open>
  The script binds DOM event handlers and talks to four endpoints of the backend. It is
  modelled feature by feature: each handler is a function of the part of the DOM it reads
  and writes, and returns the updated part together with the list of effects it emitted
  (console output, \<open>fetch\<close> calls, navigation). A \<open>fetch\<close> promise is modelled by its
  outcome: the handler that sends the request and the callback that runs on the outcome
  are two functions.

  Strings are HOL strings: a character stands for a code unit in the range U+0000 to
  U+00FF. Values that the script only compares with small integer constants
  (the results of \<open>parseInt\<close>) are integers, with \<open>None\<close> for \<open>NaN\<close>. The values
  of the summation feature are IEEE doubles in the browser; their arithmetic, the
  \<open>Number\<close> conversion and the \<open>Intl.NumberFormat\<close> rendering are parameters of the
  model (record \<open>builtins\<close>), so every statement about sums holds for whatever the
  browser computes.
\<close>

subsection \<open>Strings\<close>

text \<open>White space and line terminators of ECMAScript, as far as they are below U+0100:
  TAB, LF, VT, FF, CR, SP, NBSP. They are what \<open>trim\<close> and \<open>parseInt\<close> skip.\<close>

definition isWhiteSpace :: "char \<Rightarrow> bool" where
  "isWhiteSpace c = (c \<in> set [CHR 0x09, CHR 0x0A, CHR 0x0B, CHR 0x0C, CHR 0x0D, CHR 0x20, CHR 0xA0])"

definition trimStart :: "string \<Rightarrow> string" where
  "trimStart s = dropWhile isWhiteSpace s"

definition trim :: "string \<Rightarrow> string" where
  "trim s = rev (dropWhile isWhiteSpace (rev (dropWhile isWhiteSpace s)))"

text \<open>The regular expression class \<open>\d\<close> (without the unicode flag): the ASCII digits.\<close>

definition isDigit :: "char \<Rightarrow> bool" where
  "isDigit c = (c \<in> set ''0123456789'')"

text \<open>\<open>String.prototype.toLowerCase\<close> on code units below U+0100: A to Z and the
  upper-case letters of Latin-1 (U+00C0 to U+00DE without the multiplication sign).\<close>

definition toLowerChar :: "char \<Rightarrow> char" where
  "toLowerChar c =
     (let n = (of_char c :: nat)
      in if (65 \<le> n \<and> n \<le> 90) \<or> (192 \<le> n \<and> n \<le> 222 \<and> n \<noteq> 215)
         then char_of (n + 32) else c)"

definition toLowerCase :: "string \<Rightarrow> string" where
  "toLowerCase s = map toLowerChar s"

text \<open>\<open>s.replace(pat, rep)\<close> with a string pattern: the first occurrence of \<open>pat\<close> is
  replaced (the replacement strings of the script contain no \<open>$\<close>).\<close>

fun replace_first :: "string \<Rightarrow> string \<Rightarrow> string \<Rightarrow> string" where
  "replace_first pat rep [] = (if pat = [] then rep else [])"
| "replace_first pat rep (c # cs) =
     (if prefix pat (c # cs) then rep @ drop (length pat) (c # cs)
      else c # replace_first pat rep cs)"

text \<open>\<open>s.replace(/\<backslash>c/g, rep)\<close> for a regular expression that matches the single
  character \<open>c\<close>, with the global flag: every match is replaced, left to right.\<close>

fun replace_global :: "char \<Rightarrow> string \<Rightarrow> string \<Rightarrow> string" where
  "replace_global c rep [] = []"
| "replace_global c rep (x # xs) =
     (if x = c then rep @ replace_global c rep xs else x # replace_global c rep xs)"

subsection \<open>Integers and their decimal form\<close>

text \<open>The decimal digits of a natural number, as \<open>Number.prototype.toString\<close> writes an
  integer (exact below \<open>10^21\<close>, where JavaScript switches to exponent notation).\<close>

fun decimal_nat :: "nat \<Rightarrow> string" where
  "decimal_nat n =
     (if n < 10 then [char_of (48 + n)]
      else decimal_nat (n div 10) @ [char_of (48 + n mod 10)])"

definition decimal :: "int \<Rightarrow> string" where
  "decimal i = (if i < 0 then CHR ''-'' # decimal_nat (nat (- i)) else decimal_nat (nat i))"

text \<open>The value of a digit in a radix up to 16, \<open>None\<close> when the character is no digit of
  that radix.\<close>

definition digit_value :: "nat \<Rightarrow> char \<Rightarrow> nat option" where
  "digit_value radix c =
     (let n = (of_char c :: nat);
          v = (if 48 \<le> n \<and> n \<le> 57 then Some (n - 48)
               else if 97 \<le> n \<and> n \<le> 102 then Some (n - 87)
               else if 65 \<le> n \<and> n \<le> 70 then Some (n - 55)
               else None)
      in case v of None \<Rightarrow> None | Some d \<Rightarrow> if d < radix then Some d else None)"

text \<open>\<open>parseInt(s)\<close> with no radix argument: leading white space is skipped, a sign is
  read, a prefix \<open>0x\<close> or \<open>0X\<close> selects radix 16, then the longest run of digits is
  read; with no digit the result is \<open>NaN\<close> (\<open>None\<close>). The result here is the
  mathematical integer; JavaScript rounds it to a double, which changes neither the sign
  nor the outcome of a comparison with an integer below \<open>2^53\<close>.\<close>

definition parseInt :: "string \<Rightarrow> int option" where
  "parseInt s =
     (let s1 = trimStart s;
          neg = (case s1 of [] \<Rightarrow> False | c # _ \<Rightarrow> c = CHR ''-'');
          s2 = (case s1 of [] \<Rightarrow> [] | c # r \<Rightarrow> if c = CHR ''-'' \<or> c = CHR ''+'' then r else s1);
          hex = (prefix ''0x'' s2 \<or> prefix ''0X'' s2);
          radix = (if hex then 16 else 10);
          s3 = (if hex then drop 2 s2 else s2);
          ds = takeWhile (\<lambda>c. digit_value radix c \<noteq> None) s3;
          n = foldl (\<lambda>a c. a * radix + the (digit_value radix c)) 0 ds
      in if ds = [] then None else Some (if neg then - int n else int n))"

subsection \<open>JSON values of a response\<close>

text \<open>The value \<open>r.json()\<close> resolves to. Numbers are integers here (the backend
  answers with integer marks); an object is the list of its properties, each name once.\<close>

datatype json =
    JNull
  | JBool bool
  | JNum int
  | JStr string
  | JArr "json list"
  | JObj "(string \<times> json) list"

text \<open>ToBoolean: what \<open>!data\<close> and \<open>x || 0\<close> test.\<close>

fun truthy :: "json \<Rightarrow> bool" where
  "truthy JNull = False"
| "truthy (JBool b) = b"
| "truthy (JNum n) = (n \<noteq> 0)"
| "truthy (JStr s) = (s \<noteq> [])"
| "truthy (JArr xs) = True"
| "truthy (JObj kvs) = True"

text \<open>Property access \<open>data.k\<close> for \<open>k\<close> one of \<open>ok\<close>, \<open>mark\<close>: \<open>None\<close> is
  \<open>undefined\<close>. Only an object can have such a property.\<close>

fun get_prop :: "json \<Rightarrow> string \<Rightarrow> json option" where
  "get_prop (JObj kvs) k = map_of kvs k"
| "get_prop _ k = None"

text \<open>ToString of a value, as \<open>parseInt\<close> applies it to its argument.\<close>

fun intersperse :: "string \<Rightarrow> string list \<Rightarrow> string" where
  "intersperse sep [] = []"
| "intersperse sep [x] = x"
| "intersperse sep (x # y # ys) = x @ sep @ intersperse sep (y # ys)"

fun toString :: "json \<Rightarrow> string" where
  "toString JNull = ''null''"
| "toString (JBool b) = (if b then ''true'' else ''false'')"
| "toString (JNum n) = decimal n"
| "toString (JStr s) = s"
| "toString (JArr xs) = intersperse '','' (map (\<lambda>x. if x = JNull then [] else toString x) xs)"
| "toString (JObj kvs) = ''[object Object]''"

subsection \<open>Elements, class lists and selectors\<close>

text \<open>An element, as far as the script looks at it: its local name, its \<open>classList\<close>
  and its attributes other than \<open>class\<close>. \<open>getAttribute\<close> is \<open>null\<close> (\<open>None\<close>)
  for an attribute the element does not have.\<close>

record element =
  localName :: string
  classList :: "string list"
  attributes :: "(string \<times> string) list"

definition getAttribute :: "element \<Rightarrow> string \<Rightarrow> string option" where
  "getAttribute e n = map_of (attributes e) n"

definition classList_contains :: "element \<Rightarrow> string \<Rightarrow> bool" where
  "classList_contains e c = (c \<in> set (classList e))"

definition classList_remove :: "string \<Rightarrow> element \<Rightarrow> element" where
  "classList_remove c e = e\<lparr>classList := removeAll c (classList e)\<rparr>"

text \<open>\<open>classList.add(t1, t2, ...)\<close>: each token that is not yet in the list is appended.\<close>

fun add_tokens :: "string list \<Rightarrow> string list \<Rightarrow> string list" where
  "add_tokens [] cl = cl"
| "add_tokens (t # ts) cl = add_tokens ts (if t \<in> set cl then cl else cl @ [t])"

definition classList_add :: "string list \<Rightarrow> element \<Rightarrow> element" where
  "classList_add ts e = e\<lparr>classList := add_tokens ts (classList e)\<rparr>"

text \<open>A compound selector \<open>name.c1.c2[a='v']\<close>; the script uses no combinators, so
  whether an element matches depends on the element alone. A selector list matches when
  one of its members does.\<close>

record selector =
  sel_name :: "string option"
  sel_classes :: "string list"
  sel_attrs :: "(string \<times> string) list"

definition matches :: "selector \<Rightarrow> element \<Rightarrow> bool" where
  "matches s e =
     ((case sel_name s of None \<Rightarrow> True | Some n \<Rightarrow> localName e = n)
      \<and> list_all (\<lambda>c. classList_contains e c) (sel_classes s)
      \<and> list_all (\<lambda>(a, v). getAttribute e a = Some v) (sel_attrs s))"

text \<open>\<open>root.querySelectorAll(sel)\<close> over the descendants of \<open>root\<close> in document
  order.\<close>

definition querySelectorAll :: "selector list \<Rightarrow> element list \<Rightarrow> element list" where
  "querySelectorAll sels descendants = filter (\<lambda>e. list_ex (\<lambda>s. matches s e) sels) descendants"

definition sel_td_num_cell :: selector where
  "sel_td_num_cell = \<lparr>sel_name = Some ''td'', sel_classes = [''num-cell''], sel_attrs = []\<rparr>"

text \<open>The selector \<open>td.num-cell.marked[data-col='${col}']\<close> of \<open>sumMarked\<close>, for a
  column name without quotes (the script passes \<open>DEBE\<close> and \<open>HABER\<close>).\<close>

definition sel_marked_col :: "string \<Rightarrow> selector" where
  "sel_marked_col col =
     \<lparr>sel_name = Some ''td'', sel_classes = [''num-cell'', ''marked''],
      sel_attrs = [(''data-col'', col)]\<rparr>"

definition sel_overdue :: selector where
  "sel_overdue = \<lparr>sel_name = None, sel_classes = [''overdue''], sel_attrs = []\<rparr>"

definition sel_tr :: selector where
  "sel_tr = \<lparr>sel_name = Some ''tr'', sel_classes = [], sel_attrs = []\<rparr>"

definition sel_reorder_table :: selector where
  "sel_reorder_table = \<lparr>sel_name = Some ''table'', sel_classes = [''reorder-table''], sel_attrs = []\<rparr>"

subsection \<open>Events, requests and effects\<close>

record mouse_event =
  shiftKey :: bool
  ctrlKey :: bool
  metaKey :: bool

record keyboard_event =
  key :: string

text \<open>The three POST endpoints, with the values the script passes through
  \<open>encodeURIComponent\<close> (held undecoded here): \<open>/estado-cuenta/reordenar/c\<close>,
  \<open>/estado-cuenta/marcar/id/col\<close>, \<open>/estado-cuenta/pagado/id\<close>. An attribute that
  is \<open>null\<close> is written as the string \<open>null\<close>, as ToString does.\<close>

datatype endpoint =
    Reordenar string
  | Marcar string string
  | Pagado string

definition uri_component :: "string option \<Rightarrow> string" where
  "uri_component v = (case v of None \<Rightarrow> ''null'' | Some s \<Rightarrow> s)"

text \<open>The request bodies: none, \<open>JSON.stringify({ mark })\<close> and
  \<open>JSON.stringify({ ids })\<close>.\<close>

datatype payload =
    NoBody
  | MarkBody int
  | IdsBody "string list"

record request =
  req_endpoint :: endpoint
  req_verb :: string
  req_body :: payload

text \<open>A location: the URL up to the query, the query as the list of name and value
  pairs that \<open>searchParams\<close> holds, and the fragment.\<close>

record location =
  before_query :: string
  searchParams :: "(string \<times> string) list"
  fragment :: string

datatype effect =
    ConsoleLog string
  | ConsoleError string
  | Fetch request
  | Reload
  | Navigate location

text \<open>\<open>log(tag, ...)\<close> prints when \<open>window.DEBUG_LOG\<close> is set; \<open>err(tag, ...)\<close>
  always prints.\<close>

definition log :: "bool \<Rightarrow> string \<Rightarrow> effect list" where
  "log debug t = (if debug then [ConsoleLog t] else [])"

definition err :: "string \<Rightarrow> effect list" where
  "err t = [ConsoleError t]"

text \<open>How the promise chain \<open>fetch(...).then(r => r.json()).then(data => ...)\<close> ends:
  \<open>fetch\<close> rejects, the body is not JSON and \<open>r.json()\<close> rejects, or \<open>data\<close>
  arrives.\<close>

datatype outcome =
    FetchRejected
  | JsonRejected
  | Json json

definition is_console :: "effect \<Rightarrow> bool" where
  "is_console x = (case x of ConsoleLog t \<Rightarrow> True | ConsoleError t \<Rightarrow> True | _ \<Rightarrow> False)"

subsection \<open>Numbers of the summation feature\<close>

text \<open>A Number is \<open>NaN\<close> or some other value of type \<open>'v\<close>. The operations of the
  browser on them are the fields of \<open>builtins\<close>: \<open>Number(str)\<close>, the addition of two
  Numbers, the literal \<open>0\<close>, the test \<open>x === 0\<close> on a value that is not \<open>NaN\<close>
  (true for both zeros), and the \<open>format\<close> method of
  \<open>new Intl.NumberFormat('es-ES', { minimumFractionDigits: 2, maximumFractionDigits: 2 })\<close>.\<close>

datatype 'v number = NaN | Val 'v

record 'v builtins =
  Number_of_string :: "string \<Rightarrow> 'v number"
  plus_number :: "'v number \<Rightarrow> 'v number \<Rightarrow> 'v number"
  zero_value :: 'v
  is_zero_value :: "'v \<Rightarrow> bool"
  format_es :: "'v number \<Rightarrow> string"

definition strict_equals_zero :: "'v builtins \<Rightarrow> 'v number \<Rightarrow> bool" where
  "strict_equals_zero B x = (case x of NaN \<Rightarrow> False | Val v \<Rightarrow> is_zero_value B v)"

text \<open>\<open>parseNum\<close> (lines 246 to 254): \<open>raw\<close> is a string, so \<open>String(raw)\<close> is
  \<open>raw\<close>.\<close>

definition parseNum :: "'v builtins \<Rightarrow> string \<Rightarrow> 'v number" where
  "parseNum B raw =
     (let str = trim raw;
          n = Number_of_string B str
      in if n \<noteq> NaN then n
         else let es = replace_first '','' ''.'' (replace_global CHR ''.'' [] str);
                  n = Number_of_string B es
              in if n = NaN then Val (zero_value B) else n)"

text \<open>\<open>fmt\<close> (lines 225 to 227).\<close>

definition fmt :: "'v builtins \<Rightarrow> 'v number \<Rightarrow> string" where
  "fmt B n = format_es B n"

subsection \<open>Tables and the sum bar\<close>

text \<open>The content of a sum bar: the markup that \<open>computeSumBar\<close> writes, with the two
  texts inside its \<open>strong\<close> elements (\<open>Sigma Debe: <strong>d</strong> . Sigma Haber:
  <strong>h</strong>\<close>), or any other markup.\<close>

datatype bar_html =
    Sums string string
  | OtherHTML string

record sum_bar =
  innerHTML :: bar_html
  style_display :: string

text \<open>A table: the \<open>table\<close> element, its descendant elements in document order, and
  what \<open>table.closest('.card')\<close> and then \<open>card.querySelector('.sum-bar')\<close> find:
  \<open>None\<close> when the table has no ancestor of class \<open>card\<close>, \<open>Some None\<close> when the
  card has no sum bar yet, \<open>Some (Some bar)\<close> for the first sum bar of the card. Each
  table has a card of its own.\<close>

record table =
  table_el :: element
  table_descendants :: "element list"
  closest_card :: "sum_bar option option"

text \<open>\<open>sumMarked\<close> (lines 216 to 223): the \<open>forEach\<close> loop with its accumulator
  \<open>s\<close>.\<close>

fun sumMarked_forEach :: "'v builtins \<Rightarrow> 'v number \<Rightarrow> element list \<Rightarrow> 'v number" where
  "sumMarked_forEach B s [] = s"
| "sumMarked_forEach B s (cell # rest) =
     (let raw = (case getAttribute cell ''data-val'' of None \<Rightarrow> ''0'' | Some v \<Rightarrow> v)
      in sumMarked_forEach B (plus_number B s (parseNum B raw)) rest)"

definition sumMarked :: "'v builtins \<Rightarrow> table \<Rightarrow> string \<Rightarrow> 'v number" where
  "sumMarked B t col =
     sumMarked_forEach B (Val (zero_value B))
       (querySelectorAll [sel_marked_col col] (table_descendants t))"

text \<open>\<open>computeSumBar\<close> (lines 198 to 214) on a table that is not \<open>null\<close>; the callers
  below make the test \<open>if (!table) return\<close>. A bar that the function creates is
  inserted before the table and is then the sum bar of the card.\<close>

definition computeSumBar :: "'v builtins \<Rightarrow> table \<Rightarrow> table" where
  "computeSumBar B t =
     (case closest_card t of
        None \<Rightarrow> t
      | Some found \<Rightarrow>
          (let sumDebe = sumMarked B t ''DEBE'';
               sumHaber = sumMarked B t ''HABER'';
               bar = (case found of
                        None \<Rightarrow> \<lparr>innerHTML = OtherHTML [], style_display = []\<rparr>
                      | Some b \<Rightarrow> b);
               bar = bar\<lparr>innerHTML := Sums (fmt B sumDebe) (fmt B sumHaber)\<rparr>;
               bar = bar\<lparr>style_display :=
                       (if strict_equals_zero B sumDebe \<and> strict_equals_zero B sumHaber
                        then ''none'' else ''block'')\<rparr>
           in t\<lparr>closest_card := Some (Some bar)\<rparr>))"

subsection \<open>The page of the marking feature\<close>

text \<open>A \<open>td\<close> is referred to by the index of its table and its index among the
  descendants of that table, or by its index among the elements that have no \<open>table\<close>
  ancestor (for those \<open>closest('table')\<close> is \<open>null\<close>).\<close>

datatype cell_ref =
    InTable nat nat
  | Orphan nat

record page =
  tables :: "table list"
  orphans :: "element list"
  lastClickedCell :: "cell_ref option"
  DEBUG_LOG :: bool

definition valid_ref :: "page \<Rightarrow> cell_ref \<Rightarrow> bool" where
  "valid_ref p r =
     (case r of
        InTable ti ci \<Rightarrow> ti < length (tables p) \<and> ci < length (table_descendants (tables p ! ti))
      | Orphan i \<Rightarrow> i < length (orphans p))"

definition get_cell :: "page \<Rightarrow> cell_ref \<Rightarrow> element" where
  "get_cell p r =
     (case r of
        InTable ti ci \<Rightarrow> table_descendants (tables p ! ti) ! ci
      | Orphan i \<Rightarrow> orphans p ! i)"

definition update_cell :: "page \<Rightarrow> cell_ref \<Rightarrow> (element \<Rightarrow> element) \<Rightarrow> page" where
  "update_cell p r f =
     (case r of
        InTable ti ci \<Rightarrow>
          (let t = tables p ! ti;
               ds = table_descendants t
           in p\<lparr>tables := (tables p)[ti := t\<lparr>table_descendants := ds[ci := f (ds ! ci)]\<rparr>]\<rparr>)
      | Orphan i \<Rightarrow> p\<lparr>orphans := (orphans p)[i := f (orphans p ! i)]\<rparr>)"

text \<open>All elements of the page, in the order tables first.\<close>

definition all_elements :: "page \<Rightarrow> element list" where
  "all_elements p = concat (map table_descendants (tables p)) @ orphans p"

text \<open>\<open>computeSumBar(td.closest('table'))\<close>.\<close>

definition computeSumBar_closest :: "'v builtins \<Rightarrow> page \<Rightarrow> cell_ref \<Rightarrow> page" where
  "computeSumBar_closest B p r =
     (case r of
        InTable ti ci \<Rightarrow> p\<lparr>tables := (tables p)[ti := computeSumBar B (tables p ! ti)]\<rparr>
      | Orphan i \<Rightarrow> p)"

subsection \<open>Initialisation (lines 99 to 103, 150 and 230)\<close>

text \<open>The preventive clean-up of one \<open>td.num-cell\<close> (lines 101 to 103).\<close>

definition cleanup_num_cell :: "element \<Rightarrow> element" where
  "cleanup_num_cell td =
     (if \<not> classList_contains td ''mark-1'' \<and> \<not> classList_contains td ''mark-2''
         \<and> \<not> classList_contains td ''mark-3'' \<and> \<not> classList_contains td ''mark-4''
         \<and> \<not> classList_contains td ''mark-5'' \<and> \<not> classList_contains td ''mark-6''
         \<and> \<not> classList_contains td ''mark-7'' \<and> \<not> classList_contains td ''mark-8''
         \<and> \<not> classList_contains td ''mark-9''
      then classList_remove ''marked'' td else td)"

text \<open>\<open>document.querySelectorAll('td.num-cell').forEach\<close>, on a list of elements.\<close>

definition init_num_cells :: "element list \<Rightarrow> element list" where
  "init_num_cells es = map (\<lambda>e. if matches sel_td_num_cell e then cleanup_num_cell e else e) es"

text \<open>What the \<open>DOMContentLoaded\<close> listener does to the page of the marking feature:
  the log flag is set, the cells are cleaned, \<open>lastClickedCell\<close> starts as \<open>null\<close>,
  and \<open>computeSumBar\<close> runs on every \<open>table.reorder-table\<close>. (The navigation toggles
  and the drag handlers it also installs touch nothing of this record.)\<close>

definition DOMContentLoaded :: "'v builtins \<Rightarrow> page \<Rightarrow> page \<times> effect list" where
  "DOMContentLoaded B p =
     (let p = p\<lparr>DEBUG_LOG := True\<rparr>;
          p = p\<lparr>tables := map (\<lambda>t. t\<lparr>table_descendants := init_num_cells (table_descendants t)\<rparr>)
                              (tables p),
                 orphans := init_num_cells (orphans p)\<rparr>;
          p = p\<lparr>lastClickedCell := None\<rparr>;
          p = p\<lparr>tables := map (\<lambda>t. if matches sel_reorder_table (table_el t)
                                   then computeSumBar B t else t) (tables p)\<rparr>
      in (p, log True ''DOMContentLoaded''))"

subsection \<open>Marking a cell (lines 104 to 127 and 149 to 175)\<close>

text \<open>The click listener of a \<open>td.num-cell\<close> up to its \<open>fetch\<close> (lines 104 to 114).\<close>

definition td_click :: "page \<Rightarrow> cell_ref \<Rightarrow> mouse_event \<Rightarrow> effect list" where
  "td_click p r e =
     (let td = get_cell p r;
          id = getAttribute td ''data-id'';
          col = getAttribute td ''data-col'';
          mark = (if shiftKey e then 0 else if ctrlKey e \<or> metaKey e then 1 else - 1)
      in log (DEBUG_LOG p) ''mark click''
         @ [Fetch \<lparr>req_endpoint = Marcar (uri_component id) (uri_component col),
                    req_verb = ''POST'', req_body = MarkBody mark\<rparr>])"

text \<open>\<open>parseInt(data.mark || 0)\<close>.\<close>

definition mark_of_response :: "json \<Rightarrow> int option" where
  "mark_of_response data =
     parseInt (toString (case get_prop data ''mark'' of
                           None \<Rightarrow> JNum 0
                         | Some v \<Rightarrow> if truthy v then v else JNum 0))"

text \<open>The loop \<open>for (let i = 1; i <= 9; i++) td.classList.remove(`mark-${i}`)\<close>, from
  the value of \<open>i\<close> on.\<close>

function remove_mark_classes :: "nat \<Rightarrow> element \<Rightarrow> element" where
  "remove_mark_classes i td =
     (if i \<le> 9
      then remove_mark_classes (i + 1) (classList_remove (''mark-'' @ decimal (int i)) td)
      else td)"
  by pat_completeness auto
termination
  by (relation "measure (\<lambda>(i, td). 10 - i)") auto

text \<open>The body of the callback once \<open>data\<close> has arrived and was logged (lines 118 to 124
  for the cell \<open>td\<close> of the click listener, lines 168 to 173 for \<open>lastClickedCell\<close>;
  the two copies differ in the name of the cell only).\<close>

definition apply_mark_response :: "'v builtins \<Rightarrow> page \<Rightarrow> cell_ref \<Rightarrow> json \<Rightarrow> page" where
  "apply_mark_response B p td data =
     (if \<not> truthy data \<or> get_prop data ''ok'' = Some (JBool False) then p
      else let p = update_cell p td (classList_remove ''marked'');
               p = update_cell p td (remove_mark_classes 1);
               m = mark_of_response data;
               p = (case m of
                      None \<Rightarrow> p
                    | Some m \<Rightarrow>
                        if m > 0
                        then update_cell p td (classList_add [''marked'', ''mark-'' @ decimal m])
                        else p)
           in computeSumBar_closest B p td)"

text \<open>The promise chain of the click listener (lines 115 to 126).\<close>

definition td_click_then :: "'v builtins \<Rightarrow> page \<Rightarrow> cell_ref \<Rightarrow> outcome \<Rightarrow> page \<times> effect list" where
  "td_click_then B p td out =
     (case out of
        FetchRejected \<Rightarrow> (p, err ''mark error'')
      | JsonRejected \<Rightarrow> (p, err ''mark error'')
      | Json data \<Rightarrow> (apply_mark_response B p td data, log (DEBUG_LOG p) ''mark resp''))"

text \<open>The click listener of the document (lines 151 to 154); \<open>cell\<close> is
  \<open>e.target.closest('td.num-cell')\<close>.\<close>

definition document_click :: "page \<Rightarrow> cell_ref option \<Rightarrow> page" where
  "document_click p cell = (case cell of None \<Rightarrow> p | Some c \<Rightarrow> p\<lparr>lastClickedCell := Some c\<rparr>)"

text \<open>The keydown listener of the document up to its \<open>fetch\<close> (lines 155 to 165).\<close>

definition document_keydown :: "page \<Rightarrow> keyboard_event \<Rightarrow> effect list" where
  "document_keydown p e =
     (case lastClickedCell p of
        None \<Rightarrow> []
      | Some cell \<Rightarrow>
          (case parseInt (key e) of
             None \<Rightarrow> []
           | Some d \<Rightarrow>
               if d < 0 \<or> d > 9 then []
               else let id = getAttribute (get_cell p cell) ''data-id'';
                        col = getAttribute (get_cell p cell) ''data-col''
                    in log (DEBUG_LOG p) ''mark keydown''
                       @ [Fetch \<lparr>req_endpoint = Marcar (uri_component id) (uri_component col),
                                  req_verb = ''POST'', req_body = MarkBody d\<rparr>]))"

text \<open>Its promise chain (lines 166 to 174). The callback reads the variable
  \<open>lastClickedCell\<close> when it runs; were it \<open>null\<close>, the property access would throw
  and \<open>catch\<close> would log the error.\<close>

definition document_keydown_then :: "'v builtins \<Rightarrow> page \<Rightarrow> outcome \<Rightarrow> page \<times> effect list" where
  "document_keydown_then B p out =
     (case out of
        FetchRejected \<Rightarrow> (p, err ''mark error'')
      | JsonRejected \<Rightarrow> (p, err ''mark error'')
      | Json data \<Rightarrow>
          (case lastClickedCell p of
             None \<Rightarrow>
               (p, log (DEBUG_LOG p) ''mark resp''
                   @ (if \<not> truthy data \<or> get_prop data ''ok'' = Some (JBool False) then []
                      else err ''mark error''))
           | Some cell \<Rightarrow> (apply_mark_response B p cell data, log (DEBUG_LOG p) ''mark resp'')))"

subsection \<open>Reordering rows (lines 28 to 72)\<close>

definition isValidId :: "string option \<Rightarrow> bool" where
  "isValidId v = (case v of None \<Rightarrow> False | Some s \<Rightarrow> trim s \<noteq> [] \<and> list_all isDigit (trim s))"

text \<open>What the drag handlers of one table see: the log flag, the \<open>table\<close> element, the
  descendants of its first \<open>tbody\<close> in document order, and the variable \<open>dragRow\<close>
  (the index of a descendant).\<close>

record reorder_view =
  rv_debug :: bool
  rv_table :: element
  rv_tbody :: "element list"
  dragRow :: "nat option"

text \<open>\<open>!v\<close> for the result of \<open>getAttribute\<close>: \<open>null\<close> and the empty string are
  falsy.\<close>

definition falsy :: "string option \<Rightarrow> bool" where
  "falsy v = (v = None \<or> v = Some [])"

text \<open>The \<open>dragend\<close> listener of the row at index \<open>i\<close> (lines 54 to 67). An id that
  passes \<open>isValidId\<close> is a string, so \<open>the\<close> reads it.\<close>

definition tr_dragend :: "reorder_view \<Rightarrow> nat \<Rightarrow> reorder_view \<times> effect list" where
  "tr_dragend v i =
     (let v = v\<lparr>rv_tbody := (rv_tbody v)[i := classList_remove ''dragging'' (rv_tbody v ! i)]\<rparr>;
          v = v\<lparr>dragRow := None\<rparr>;
          cliente = getAttribute (rv_table v) ''data-cliente'';
          ids = filter isValidId
                  (map (\<lambda>r. getAttribute r ''data-id'') (querySelectorAll [sel_tr] (rv_tbody v)))
      in if falsy cliente \<or> length ids = 0 then (v, [])
         else (v, log (rv_debug v) ''reordenar POST''
                  @ [Fetch \<lparr>req_endpoint = Reordenar (uri_component cliente),
                             req_verb = ''POST'', req_body = IdsBody (map the ids)\<rparr>]))"

text \<open>Its promise chain (lines 68 to 70).\<close>

definition tr_dragend_then :: "bool \<Rightarrow> bool \<Rightarrow> effect list" where
  "tr_dragend_then debug rejected =
     (if rejected then err ''reordenar error'' else log debug ''reordenar resp'' @ [Reload])"

subsection \<open>Marking a row as paid (lines 132 to 147)\<close>

text \<open>A row: the \<open>tr\<close> element and its descendants in document order.\<close>

record row =
  row_el :: element
  row_descendants :: "element list"

text \<open>The \<open>dblclick\<close> listener of a \<open>td.venc-cell\<close> or \<open>td.venc-days\<close> up to its
  \<open>fetch\<close>; \<open>tr\<close> is \<open>td.closest('tr')\<close>.\<close>

definition td_dblclick :: "row option \<Rightarrow> effect list" where
  "td_dblclick tr =
     (let id = (case tr of None \<Rightarrow> None | Some r \<Rightarrow> getAttribute (row_el r) ''data-id'')
      in if falsy id then []
         else [Fetch \<lparr>req_endpoint = Pagado (uri_component id), req_verb = ''POST'',
                       req_body = NoBody\<rparr>])"

text \<open>Its promise chain (lines 139 to 145), for the row the request was sent for.\<close>

definition td_dblclick_then :: "row \<Rightarrow> outcome \<Rightarrow> row \<times> effect list" where
  "td_dblclick_then tr out =
     (case out of
        FetchRejected \<Rightarrow> (tr, err ''pagado error'')
      | JsonRejected \<Rightarrow> (tr, err ''pagado error'')
      | Json data \<Rightarrow>
          if \<not> truthy data \<or> get_prop data ''ok'' = Some (JBool False) then (tr, [])
          else (tr\<lparr>row_descendants :=
                      map (\<lambda>el. if matches sel_overdue el then classList_remove ''overdue'' el else el)
                        (row_descendants tr)\<rparr>, []))"

subsection \<open>Sorting by date (lines 232 to 244)\<close>

text \<open>\<open>url.searchParams.set(name, v)\<close>: the first pair of that name takes the value and
  the other pairs of that name are removed; without such a pair, one is appended.\<close>

fun searchParams_set :: "string \<Rightarrow> string \<Rightarrow> (string \<times> string) list \<Rightarrow> (string \<times> string) list" where
  "searchParams_set name v [] = [(name, v)]"
| "searchParams_set name v ((k, w) # rest) =
     (if k = name then (k, v) # filter (\<lambda>(k', w'). k' \<noteq> name) rest
      else (k, w) # searchParams_set name v rest)"

text \<open>The click listener of a \<open>th.sortable[data-sort="fecha"]\<close>; \<open>table\<close> is
  \<open>th.closest('table')\<close> and \<open>href\<close> is \<open>window.location.href\<close>.\<close>

definition th_click :: "element option \<Rightarrow> location \<Rightarrow> effect list" where
  "th_click table href =
     (case table of
        None \<Rightarrow> []
      | Some t \<Rightarrow>
          (let current = toLowerCase (case getAttribute t ''data-orden'' of
                                        None \<Rightarrow> ''asc''
                                      | Some v \<Rightarrow> if v = [] then ''asc'' else v);
               next = (if current = ''asc'' then ''desc'' else ''asc'');
               url = href\<lparr>searchParams := searchParams_set ''orden'' next (searchParams href)\<rparr>
           in [Navigate url]))"

subsection \<open>Reading the effects\<close>

text \<open>The marks of the \<open>marcar\<close> requests among a list of effects, the requests
  among the effects, and the range of a mark in the data model.\<close>

definition sent_marks :: "effect list \<Rightarrow> int list" where
  "sent_marks es =
     concat (map (\<lambda>x. case x of
                         Fetch r \<Rightarrow> (case req_body r of MarkBody m \<Rightarrow> [m] | _ \<Rightarrow> [])
                       | _ \<Rightarrow> []) es)"

definition requests :: "effect list \<Rightarrow> request list" where
  "requests es = concat (map (\<lambda>x. case x of Fetch r \<Rightarrow> [r] | _ \<Rightarrow> []) es)"

definition mark_in_range :: "int \<Rightarrow> bool" where
  "mark_in_range m = (0 \<le> m \<and> m \<le> 9)"

subsection \<open>Notions of the statements\<close>

text \<open>The identifiers that a reorder request carries: the \<open>data-id\<close> values of the
  \<open>tr\<close> elements, in document order, that once trimmed are not empty and consist of
  the digits 0 to 9 (the code points U+0030 to U+0039).\<close>

definition digit_row_ids :: "element list \<Rightarrow> string list" where
  "digit_row_ids es =
     concat (map (\<lambda>r. case getAttribute r ''data-id'' of
                         None \<Rightarrow> []
                       | Some s \<Rightarrow>
                           if localName r = ''tr'' \<and> trim s \<noteq> []
                              \<and> list_all (\<lambda>c. 48 \<le> (of_char c :: nat) \<and> (of_char c :: nat) \<le> 57)
                                    (trim s)
                           then [s] else []) es)"

text \<open>All \<open>data-id\<close> attributes of the \<open>tr\<close> elements, in document order.\<close>

definition data_id_attributes :: "element list \<Rightarrow> string list" where
  "data_id_attributes es =
     concat (map (\<lambda>r. case getAttribute r ''data-id'' of
                         None \<Rightarrow> []
                       | Some s \<Rightarrow> if localName r = ''tr'' then [s] else []) es)"

text \<open>The order a click on the date header asks for, as the specification words it: the
  \<open>data-orden\<close> attribute, \<open>asc\<close> when it is absent, lower-cased, is compared with
  \<open>asc\<close>.\<close>

definition claimed_next_order :: "element \<Rightarrow> string" where
  "claimed_next_order t =
     (if toLowerCase (case getAttribute t ''data-orden'' of None \<Rightarrow> ''asc'' | Some v \<Rightarrow> v) = ''asc''
      then ''desc'' else ''asc'')"

text \<open>The same with the default \<open>asc\<close> also for an empty attribute.\<close>

definition next_order :: "element \<Rightarrow> string" where
  "next_order t =
     (if toLowerCase (case getAttribute t ''data-orden'' of
                        None \<Rightarrow> ''asc''
                      | Some v \<Rightarrow> if v = [] then ''asc'' else v) = ''asc''
      then ''desc'' else ''asc'')"

text \<open>The element without the class \<open>overdue\<close>.\<close>

definition without_overdue :: "element \<Rightarrow> element" where
  "without_overdue el = el\<lparr>classList := filter (\<lambda>c. c \<noteq> ''overdue'') (classList el)\<rparr>"

text \<open>A response that lets the callbacks act: \<open>data\<close> is truthy and \<open>data.ok\<close> is not
  \<open>false\<close>.\<close>

definition accepted :: "json \<Rightarrow> bool" where
  "accepted data = (truthy data \<and> get_prop data ''ok'' \<noteq> Some (JBool False))"

text \<open>The two rewritings of \<open>parseNum\<close> as the specification words them: every full stop is
  removed; the first comma becomes a full stop.\<close>

definition without_dots :: "string \<Rightarrow> string" where
  "without_dots s = filter (\<lambda>c. c \<noteq> CHR ''.'') s"

definition first_comma_to_dot :: "string \<Rightarrow> string" where
  "first_comma_to_dot s =
     takeWhile (\<lambda>c. c \<noteq> CHR '','') s
     @ (case dropWhile (\<lambda>c. c \<noteq> CHR '','') s of [] \<Rightarrow> [] | c # rest \<Rightarrow> CHR ''.'' # rest)"

text \<open>The total of a column as the specification words it: the sum, from 0 and in document order,
  of \<open>parseNum\<close> of the \<open>data-val\<close> (the string \<open>0\<close> when the attribute is absent) of
  the \<open>td\<close> elements of the table that carry the classes \<open>num-cell\<close> and \<open>marked\<close>
  and whose \<open>data-col\<close> is the column.\<close>

definition marked_total :: "'v builtins \<Rightarrow> table \<Rightarrow> string \<Rightarrow> 'v number" where
  "marked_total B t col =
     foldl (plus_number B) (Val (zero_value B))
       (map (\<lambda>cell. parseNum B (case getAttribute cell ''data-val'' of None \<Rightarrow> ''0'' | Some v \<Rightarrow> v))
          (filter (\<lambda>e. localName e = ''td'' \<and> ''num-cell'' \<in> set (classList e)
                        \<and> ''marked'' \<in> set (classList e)
                        \<and> getAttribute e ''data-col'' = Some col)
             (table_descendants t)))"

text \<open>What the sum bar of the table's card shows after a step, if there is one.\<close>

definition shown_html :: "table \<Rightarrow> bar_html option" where
  "shown_html t = (case closest_card t of Some (Some bar) \<Rightarrow> Some (innerHTML bar) | _ \<Rightarrow> None)"

definition shown_display :: "table \<Rightarrow> string option" where
  "shown_display t = (case closest_card t of Some (Some bar) \<Rightarrow> Some (style_display bar) | _ \<Rightarrow> None)"

text \<open>The class names of the marks 1 to 9.\<close>

definition mark_names :: "string list" where
  "mark_names = [''mark-1'', ''mark-2'', ''mark-3'', ''mark-4'', ''mark-5'', ''mark-6'',
                 ''mark-7'', ''mark-8'', ''mark-9'']"

text \<open>An element after its mark classes were set from a parsed mark \<open>m\<close>: the classes
  \<open>marked\<close> and \<open>mark-1\<close> to \<open>mark-9\<close> are gone, and for a positive \<open>m\<close> the
  classes \<open>marked\<close> and \<open>mark-m\<close> are added.\<close>

definition set_mark_classes :: "int option \<Rightarrow> element \<Rightarrow> element" where
  "set_mark_classes m e =
     e\<lparr>classList :=
         add_tokens (case m of
                       None \<Rightarrow> []
                     | Some n \<Rightarrow> if 0 < n then [''marked'', ''mark-'' @ decimal n] else [])
           (filter (\<lambda>c. c \<noteq> ''marked'' \<and> c \<notin> set mark_names) (classList e))\<rparr>"

text \<open>A promise chain of the marking feature that fails: \<open>fetch\<close> rejects, the body is
  no JSON, or the response is falsy or has \<open>ok === false\<close>.\<close>

definition mark_failed :: "outcome \<Rightarrow> bool" where
  "mark_failed out =
     (case out of FetchRejected \<Rightarrow> True | JsonRejected \<Rightarrow> True | Json data \<Rightarrow> \<not> accepted data)"

text \<open>The invariant of the marked cells: a \<open>td.num-cell\<close> that carries \<open>marked\<close>
  carries one of \<open>mark-1\<close> to \<open>mark-9\<close>.\<close>

definition cell_ok :: "element \<Rightarrow> bool" where
  "cell_ok e =
     (if matches sel_td_num_cell e \<and> ''marked'' \<in> set (classList e)
      then list_ex (\<lambda>n. n \<in> set (classList e)) mark_names else True)"

definition page_ok :: "page \<Rightarrow> bool" where
  "page_ok p = list_all cell_ok (all_elements p)"

text \<open>The mark of a response is at most 9 (or no number).\<close>

definition mark_at_most_9 :: "json \<Rightarrow> bool" where
  "mark_at_most_9 data = (case mark_of_response data of None \<Rightarrow> True | Some m \<Rightarrow> m \<le> 9)"

text \<open>The outcome of a promise chain whose response, if there is one, has a mark of at
  most 9.\<close>

definition outcome_at_most_9 :: "outcome \<Rightarrow> bool" where
  "outcome_at_most_9 out = (case out of Json data \<Rightarrow> mark_at_most_9 data | _ \<Rightarrow> True)"

text \<open>The sum bar of a table shows the totals of the table's marked cells; and on a page,
  every \<open>table.reorder-table\<close> inside a card has such a sum bar.\<close>

definition bar_shows_totals :: "'v builtins \<Rightarrow> table \<Rightarrow> bool" where
  "bar_shows_totals B t =
     (shown_html t
        = Some (Sums (fmt B (marked_total B t ''DEBE'')) (fmt B (marked_total B t ''HABER''))))"

definition bars_ok :: "'v builtins \<Rightarrow> page \<Rightarrow> bool" where
  "bars_ok B p =
     list_all (\<lambda>t. if matches sel_reorder_table (table_el t) \<and> closest_card t \<noteq> None
                    then bar_shows_totals B t else True) (tables p)"

subsection \<open>Example inputs\<close>

text \<open>An interpretation of the builtins on integers, used to evaluate examples: a string
  that is a decimal integer literal (after trimming, with an optional sign) is its value,
  the empty string is 0, every other string is \<open>NaN\<close> here; the rendering is the decimal
  number followed by \<open>,00\<close>.\<close>

definition int_Number :: "string \<Rightarrow> int number" where
  "int_Number s =
     (let t = trim s;
          u = (case t of [] \<Rightarrow> [] | c # r \<Rightarrow> if c = CHR ''-'' \<or> c = CHR ''+'' then r else t)
      in if t = [] then Val 0
         else if u \<noteq> [] \<and> list_all isDigit u
         then (case parseInt t of None \<Rightarrow> NaN | Some i \<Rightarrow> Val i)
         else NaN)"

definition int_plus :: "int number \<Rightarrow> int number \<Rightarrow> int number" where
  "int_plus a b = (case a of NaN \<Rightarrow> NaN | Val x \<Rightarrow> (case b of NaN \<Rightarrow> NaN | Val y \<Rightarrow> Val (x + y)))"

definition int_builtins :: "int builtins" where
  "int_builtins =
     \<lparr>Number_of_string = int_Number, plus_number = int_plus, zero_value = 0,
      is_zero_value = (\<lambda>v. v = 0),
      format_es = (\<lambda>n. case n of NaN \<Rightarrow> ''NaN'' | Val i \<Rightarrow> decimal i @ '',00'')\<rparr>"

definition td_example :: element where
  "td_example =
     \<lparr>localName = ''td'', classList = [''num-cell''],
      attributes = [(''data-id'', ''17''), (''data-col'', ''DEBE''), (''data-val'', ''100'')]\<rparr>"

definition td_marked_example :: element where
  "td_marked_example =
     \<lparr>localName = ''td'', classList = [''num-cell'', ''marked'', ''mark-2''],
      attributes = [(''data-id'', ''18''), (''data-col'', ''HABER''), (''data-val'', ''250'')]\<rparr>"

definition table_example :: table where
  "table_example =
     \<lparr>table_el = \<lparr>localName = ''table'', classList = [''reorder-table''],
                   attributes = [(''data-cliente'', ''ACME''), (''data-orden'', ''ASC'')]\<rparr>,
      table_descendants = [td_example, td_marked_example],
      closest_card = Some None\<rparr>"

definition page_example :: page where
  "page_example =
     \<lparr>tables = [table_example], orphans = [], lastClickedCell = Some (InTable 0 0),
      DEBUG_LOG = True\<rparr>"

definition plain_click :: mouse_event where
  "plain_click = \<lparr>shiftKey = False, ctrlKey = False, metaKey = False\<rparr>"

definition ctrl_click :: mouse_event where
  "ctrl_click = \<lparr>shiftKey = False, ctrlKey = True, metaKey = False\<rparr>"

text \<open>A table body during a drag: the dragged row first, a cell, a row whose
  \<open>data-id\<close> is no number, a row without \<open>data-id\<close>, and three more rows; the
  numeric identifiers use every digit.\<close>

definition reorder_example :: reorder_view where
  "reorder_example =
     \<lparr>rv_debug = False,
      rv_table = \<lparr>localName = ''table'', classList = [''reorder-table''],
                   attributes = [(''data-cliente'', ''ACME'')]\<rparr>,
      rv_tbody =
        [\<lparr>localName = ''tr'', classList = [''dragging''], attributes = [(''data-id'', ''45'')]\<rparr>,
         \<lparr>localName = ''td'', classList = [], attributes = []\<rparr>,
         \<lparr>localName = ''tr'', classList = [], attributes = [(''data-id'', ''A-7'')]\<rparr>,
         \<lparr>localName = ''tr'', classList = [], attributes = []\<rparr>,
         \<lparr>localName = ''tr'', classList = [], attributes = [(''data-id'', ''12'')]\<rparr>,
         \<lparr>localName = ''tr'', classList = [], attributes = [(''data-id'', ''67'')]\<rparr>,
         \<lparr>localName = ''tr'', classList = [], attributes = [(''data-id'', ''3890'')]\<rparr>],
      dragRow = Some 0\<rparr>"

text \<open>Tables with the \<open>data-orden\<close> attribute empty and in upper case, and a location
  with a query.\<close>

definition table_orden_empty :: element where
  "table_orden_empty =
     \<lparr>localName = ''table'', classList = [], attributes = [(''data-orden'', '''')]\<rparr>"

definition table_orden_ASC :: element where
  "table_orden_ASC =
     \<lparr>localName = ''table'', classList = [], attributes = [(''data-orden'', ''ASC'')]\<rparr>"

definition href_example :: location where
  "href_example =
     \<lparr>before_query = ''http://127.0.0.1:5000/estado-cuenta'',
      searchParams = [(''cliente'', ''ACME''), (''orden'', ''asc''), (''orden'', ''x'')],
      fragment = []\<rparr>"

text \<open>Rows with an empty and with a numeric \<open>data-id\<close>, holding overdue cells.\<close>

definition row_descendants_example :: "element list" where
  "row_descendants_example =
     [\<lparr>localName = ''td'', classList = [''venc-cell'', ''overdue''], attributes = []\<rparr>,
      \<lparr>localName = ''td'', classList = [''num-cell''], attributes = []\<rparr>,
      \<lparr>localName = ''span'', classList = [''overdue'', ''badge''], attributes = []\<rparr>]"

definition row_empty_id :: row where
  "row_empty_id =
     \<lparr>row_el = \<lparr>localName = ''tr'', classList = [], attributes = [(''data-id'', '''')]\<rparr>,
      row_descendants = row_descendants_example\<rparr>"

definition row_example :: row where
  "row_example =
     \<lparr>row_el = \<lparr>localName = ''tr'', classList = [], attributes = [(''data-id'', ''31'')]\<rparr>,
      row_descendants = row_descendants_example\<rparr>"

text \<open>A table in a card, with a marked DEBE cell of 100, an unmarked DEBE cell, two
  marked HABER cells of 250 and -250, and a marked DEBE cell of 40 that is no
  \<open>num-cell\<close>.\<close>

definition sum_table_example :: table where
  "sum_table_example =
     \<lparr>table_el = \<lparr>localName = ''table'', classList = [''reorder-table''], attributes = []\<rparr>,
      table_descendants =
        [\<lparr>localName = ''td'', classList = [''num-cell'', ''marked'', ''mark-1''],
           attributes = [(''data-col'', ''DEBE''), (''data-val'', ''100'')]\<rparr>,
         \<lparr>localName = ''td'', classList = [''num-cell''],
           attributes = [(''data-col'', ''DEBE''), (''data-val'', ''7'')]\<rparr>,
         \<lparr>localName = ''td'', classList = [''num-cell'', ''marked'', ''mark-3''],
           attributes = [(''data-col'', ''HABER''), (''data-val'', ''250'')]\<rparr>,
         \<lparr>localName = ''td'', classList = [''num-cell'', ''marked'', ''mark-3''],
           attributes = [(''data-col'', ''HABER''), (''data-val'', '' -250 '')]\<rparr>,
         \<lparr>localName = ''td'', classList = [''marked''],
           attributes = [(''data-col'', ''DEBE''), (''data-val'', ''40'')]\<rparr>],
      closest_card = Some None\<rparr>"

text \<open>Responses of the \<open>marcar\<close> endpoint: accepted with the marks 3, 5 and 10, and
  refused.\<close>

definition response_mark_3 :: json where
  "response_mark_3 = JObj [(''ok'', JBool True), (''mark'', JNum 3)]"

definition response_mark_5 :: json where
  "response_mark_5 = JObj [(''ok'', JBool True), (''mark'', JNum 5)]"

definition response_mark_10 :: json where
  "response_mark_10 = JObj [(''ok'', JBool True), (''mark'', JNum 10)]"

definition response_refused :: json where
  "response_refused = JObj [(''ok'', JBool False), (''mark'', JNum 3)]"

text \<open>A page that holds the table above.\<close>

definition sum_page_example :: page where
  "sum_page_example =
     \<lparr>tables = [sum_table_example], orphans = [], lastClickedCell = None, DEBUG_LOG = True\<rparr>"

section \<open>Properties\<close>

subsection \<open>Evaluation lemmas\<close>

lemma sent_marks_append: "sent_marks (xs @ ys) = sent_marks xs @ sent_marks ys"
  by (simp add: sent_marks_def)

lemma sent_marks_log: "sent_marks (log d t) = []"
  by (simp add: sent_marks_def log_def)

lemma sent_marks_fetch:
  "sent_marks [Fetch \<lparr>req_endpoint = ep, req_verb = v, req_body = MarkBody m\<rparr>] = [m]"
  by (simp add: sent_marks_def)

subsection \<open>C1: the mark of a request\<close>

text \<open>
  C1, as amended. A click on a \<open>td.num-cell\<close> sends exactly one mark: 0 with Shift, 1 with
  Ctrl or Meta and no Shift, and the sentinel \<open>-1\<close> otherwise. Every mark that the digit
  keydown listener sends is an integer from 0 to 9.
\<close>

theorem C1_marks_sent:
  "sent_marks (td_click p r e)
     = [if shiftKey e then 0 else if ctrlKey e \<or> metaKey e then 1 else - 1]
   \<and> list_all mark_in_range (sent_marks (document_keydown p k))"
proof -
  have click: "sent_marks (td_click p r e)
      = [if shiftKey e then 0 else if ctrlKey e \<or> metaKey e then 1 else - 1]"
    by (simp add: td_click_def Let_def sent_marks_append sent_marks_log sent_marks_fetch)
  have keydown: "list_all mark_in_range (sent_marks (document_keydown p k))"
  proof (cases "lastClickedCell p")
    case None
    then show ?thesis by (simp add: document_keydown_def sent_marks_def)
  next
    case (Some cell)
    show ?thesis
    proof (cases "parseInt (key k)")
      case None
      with Some show ?thesis by (simp add: document_keydown_def sent_marks_def)
    next
      case (Some d)
      with \<open>lastClickedCell p = Some cell\<close> show ?thesis
        by (simp add: document_keydown_def Let_def sent_marks_append sent_marks_log
            sent_marks_fetch mark_in_range_def)
          (simp add: sent_marks_def)
    qed
  qed
  from click keydown show ?thesis by simp
qed

text \<open>The theorem at a Ctrl click and at the key \<open>7\<close>.\<close>

theorem C1_marks_sent_witness:
  "sent_marks (td_click page_example (InTable 0 0) ctrl_click) = [1]
   \<and> list_all mark_in_range (sent_marks (document_keydown page_example \<lparr>key = ''7''\<rparr>))"
  using C1_marks_sent [of page_example "InTable 0 0" ctrl_click "\<lparr>key = ''7''\<rparr>"]
  by (simp add: ctrl_click_def)

text \<open>The statement of the specification fails at a click without modifier keys: the
  mark sent is \<open>-1\<close>.\<close>

theorem C1_counterexample:
  "sent_marks (td_click page_example (InTable 0 0) plain_click) = [- 1]
   \<and> \<not> list_all mark_in_range (sent_marks (td_click page_example (InTable 0 0) plain_click))"
  by code_simp

subsection \<open>C2: the request of a drag-end\<close>

lemma matches_classList_remove_name:
  "sel_classes s = [] \<Longrightarrow> matches s (classList_remove c e) = matches s e"
  by (simp add: matches_def classList_remove_def getAttribute_def classList_contains_def
      split: option.splits)

lemma filter_list_update_same:
  assumes "\<And>x. P (g x) = P x" "\<And>x. f (g x) = f x"
  shows "map f (filter P (xs[i := g (xs ! i)])) = map f (filter P xs)"
proof (induction xs arbitrary: i)
  case Nil
  show ?case by simp
next
  case (Cons x xs)
  show ?case
  proof (cases i)
    case 0
    then show ?thesis using assms by simp
  next
    case (Suc j)
    then show ?thesis using Cons [of j] by simp
  qed
qed

text \<open>The class \<open>\d\<close> is the range of the ten digits.\<close>

lemma of_char_digit:
  "((of_char c :: nat) = 48) = (c = CHR ''0'')" "((of_char c :: nat) = 49) = (c = CHR ''1'')"
  "((of_char c :: nat) = 50) = (c = CHR ''2'')" "((of_char c :: nat) = 51) = (c = CHR ''3'')"
  "((of_char c :: nat) = 52) = (c = CHR ''4'')" "((of_char c :: nat) = 53) = (c = CHR ''5'')"
  "((of_char c :: nat) = 54) = (c = CHR ''6'')" "((of_char c :: nat) = 55) = (c = CHR ''7'')"
  "((of_char c :: nat) = 56) = (c = CHR ''8'')" "((of_char c :: nat) = 57) = (c = CHR ''9'')"
  using of_char_eq_iff [of c "CHR ''0''", where ?'a = nat] of_char_eq_iff [of c "CHR ''1''", where ?'a = nat]
    of_char_eq_iff [of c "CHR ''2''", where ?'a = nat] of_char_eq_iff [of c "CHR ''3''", where ?'a = nat]
    of_char_eq_iff [of c "CHR ''4''", where ?'a = nat] of_char_eq_iff [of c "CHR ''5''", where ?'a = nat]
    of_char_eq_iff [of c "CHR ''6''", where ?'a = nat] of_char_eq_iff [of c "CHR ''7''", where ?'a = nat]
    of_char_eq_iff [of c "CHR ''8''", where ?'a = nat] of_char_eq_iff [of c "CHR ''9''", where ?'a = nat]
  by simp_all

lemma isDigit_code_points: "isDigit c = (48 \<le> (of_char c :: nat) \<and> (of_char c :: nat) \<le> 57)"
proof -
  have "(48 \<le> (of_char c :: nat) \<and> (of_char c :: nat) \<le> 57)
      = ((of_char c :: nat) = 48 \<or> (of_char c :: nat) = 49 \<or> (of_char c :: nat) = 50
         \<or> (of_char c :: nat) = 51 \<or> (of_char c :: nat) = 52 \<or> (of_char c :: nat) = 53
         \<or> (of_char c :: nat) = 54 \<or> (of_char c :: nat) = 55 \<or> (of_char c :: nat) = 56
         \<or> (of_char c :: nat) = 57)"
    by arith
  then show ?thesis
    by (simp only: of_char_digit) (simp add: isDigit_def)
qed

lemma dragend_ids:
  "map the (filter isValidId (map (\<lambda>r. getAttribute r ''data-id'') (querySelectorAll [sel_tr] es)))
   = digit_row_ids es"
proof -
  have d: "list_all isDigit s
      = list_all (\<lambda>c. 48 \<le> (of_char c :: nat) \<and> (of_char c :: nat) \<le> 57) s" for s
    by (simp add: isDigit_code_points list_all_iff)
  have "map the (filter isValidId (map (\<lambda>r. getAttribute r ''data-id'')
          (querySelectorAll [sel_tr] es)))
      = concat (map (\<lambda>r. case getAttribute r ''data-id'' of
                         None \<Rightarrow> []
                       | Some s \<Rightarrow>
                           if localName r = ''tr'' \<and> trim s \<noteq> [] \<and> list_all isDigit (trim s)
                           then [s] else []) es)"
    by (induction es)
       (auto simp: querySelectorAll_def sel_tr_def matches_def isValidId_def
             split: option.splits)
  then show ?thesis
    by (simp only: digit_row_ids_def d)
qed

lemma dragend_rows_unchanged:
  "map (\<lambda>r. getAttribute r ''data-id'')
     (querySelectorAll [sel_tr] (es[i := classList_remove ''dragging'' (es ! i)]))
   = map (\<lambda>r. getAttribute r ''data-id'') (querySelectorAll [sel_tr] es)"
  unfolding querySelectorAll_def
  by (rule filter_list_update_same)
     (simp_all add: matches_classList_remove_name sel_tr_def,
      simp add: getAttribute_def classList_remove_def)

text \<open>
  C2, as amended. On drag-end of a row the client sends exactly one POST to the reorder
  endpoint of the table's \<open>data-cliente\<close> when that attribute is present and not empty
  and some row of the table body has a \<open>data-id\<close> that consists of digits (after
  trimming); the body is the list of those digit identifiers in the rows' document order,
  and rows whose \<open>data-id\<close> is absent or no digit string are left out. Otherwise no
  request is sent.
\<close>

theorem C2_dragend_request:
  "requests (snd (tr_dragend v i)) =
     (case getAttribute (rv_table v) ''data-cliente'' of
        None \<Rightarrow> []
      | Some cliente \<Rightarrow>
          if cliente = [] \<or> digit_row_ids (rv_tbody v) = [] then []
          else [\<lparr>req_endpoint = Reordenar cliente, req_verb = ''POST'',
                  req_body = IdsBody (digit_row_ids (rv_tbody v))\<rparr>])"
proof -
  have ids: "map the (filter isValidId (map (\<lambda>r. getAttribute r ''data-id'')
        (querySelectorAll [sel_tr] ((rv_tbody v)[i := classList_remove ''dragging'' (rv_tbody v ! i)]))))
      = digit_row_ids (rv_tbody v)"
    by (simp only: dragend_rows_unchanged dragend_ids)
  have empty: "(filter isValidId (map (\<lambda>r. getAttribute r ''data-id'')
        (querySelectorAll [sel_tr] ((rv_tbody v)[i := classList_remove ''dragging'' (rv_tbody v ! i)]))) = [])
      = (digit_row_ids (rv_tbody v) = [])"
    using ids by (metis map_is_Nil_conv)
  show ?thesis
    by (cases "getAttribute (rv_table v) ''data-cliente''")
       (simp_all add: tr_dragend_def Let_def falsy_def requests_def log_def uri_component_def
          ids empty)
qed

text \<open>The digit class and \<open>isValidId\<close> on every digit and on other characters.\<close>

lemma isDigit_examples:
  "list_all isDigit ''0123456789'' \<and> \<not> list_ex isDigit ''/:aA -.,''"
  by code_simp

lemma isValidId_examples:
  "isValidId (Some ''45'') \<and> isValidId (Some '' 67 '') \<and> isValidId (Some ''0123456789'')
   \<and> \<not> isValidId (Some ''A-7'') \<and> \<not> isValidId (Some []) \<and> \<not> isValidId (Some ''4 5'')
   \<and> \<not> isValidId None"
  by code_simp

lemma reorder_example_ids: "digit_row_ids (rv_tbody reorder_example) = [''45'', ''12'', ''67'', ''3890'']"
  by code_simp

lemma reorder_example_cliente:
  "getAttribute (rv_table reorder_example) ''data-cliente'' = Some ''ACME''"
  by code_simp

text \<open>The theorem at the example: one request, with the four digit identifiers.\<close>

theorem C2_dragend_request_witness:
  "requests (snd (tr_dragend reorder_example 0)) =
     [\<lparr>req_endpoint = Reordenar ''ACME'', req_verb = ''POST'', req_body = IdsBody [''45'', ''12'', ''67'', ''3890'']\<rparr>]"
  using C2_dragend_request [of reorder_example 0]
  by (simp add: reorder_example_ids reorder_example_cliente)

text \<open>The statement of the specification fails at the example: the rows carry the
  \<open>data-id\<close> attributes 45, A-7, 12, 67 and 3890, and the body of the request is the
  list of 45, 12, 67 and 3890.\<close>

theorem C2_counterexample:
  "data_id_attributes (rv_tbody reorder_example) = [''45'', ''A-7'', ''12'', ''67'', ''3890'']
   \<and> requests (snd (tr_dragend reorder_example 0)) =
     [\<lparr>req_endpoint = Reordenar ''ACME'', req_verb = ''POST'', req_body = IdsBody [''45'', ''12'', ''67'', ''3890'']\<rparr>]"
  by code_simp

subsection \<open>C6: the sort toggle\<close>

lemma searchParams_set_lookup: "map_of (searchParams_set name v ps) name = Some v"
  by (induction ps) auto

lemma searchParams_set_once:
  "length (filter (\<lambda>(k, w). k = name) (searchParams_set name v ps)) = 1"
  by (induction ps) (auto simp: filter_empty_conv)

lemma searchParams_set_others:
  "filter (\<lambda>(k, w). k \<noteq> name) (searchParams_set name v ps) = filter (\<lambda>(k, w). k \<noteq> name) ps"
  by (induction ps) auto

text \<open>
  C6, as amended. A click on the sortable date header inside a table navigates to the
  current location with the query parameter \<open>orden\<close> set to \<open>desc\<close> when the table's
  \<open>data-orden\<close> attribute, defaulting to \<open>asc\<close> when it is absent or empty, equals
  \<open>asc\<close> once lower-cased, and set to \<open>asc\<close> otherwise. The parameter then occurs once
  and the other parameters are kept in their order.
\<close>

theorem C6_sort_toggle:
  "th_click (Some t) href
     = [Navigate (href\<lparr>searchParams := searchParams_set ''orden'' (next_order t) (searchParams href)\<rparr>)]
   \<and> map_of (searchParams_set ''orden'' (next_order t) (searchParams href)) ''orden''
       = Some (next_order t)
   \<and> length (filter (\<lambda>(k, w). k = ''orden'')
                (searchParams_set ''orden'' (next_order t) (searchParams href))) = 1
   \<and> filter (\<lambda>(k, w). k \<noteq> ''orden'') (searchParams_set ''orden'' (next_order t) (searchParams href))
       = filter (\<lambda>(k, w). k \<noteq> ''orden'') (searchParams href)"
proof -
  have "th_click (Some t) href
     = [Navigate (href\<lparr>searchParams := searchParams_set ''orden'' (next_order t) (searchParams href)\<rparr>)]"
    by (simp add: th_click_def next_order_def Let_def)
  then show ?thesis
    by (simp only: searchParams_set_lookup searchParams_set_once searchParams_set_others simp_thms)
qed

lemma next_order_ASC: "next_order table_orden_ASC = ''desc''"
  by code_simp

text \<open>The theorem at a table in ascending order (written in upper case): the location
  gets \<open>orden=desc\<close> once.\<close>

theorem C6_sort_toggle_witness:
  "th_click (Some table_orden_ASC) href_example
     = [Navigate (href_example\<lparr>searchParams := [(''cliente'', ''ACME''), (''orden'', ''desc'')]\<rparr>)]"
  using C6_sort_toggle [of table_orden_ASC href_example]
  by (simp add: next_order_ASC href_example_def)

text \<open>The statement of the specification fails at a table whose \<open>data-orden\<close>
  attribute is empty: the attribute is present and differs from \<open>asc\<close>, so the
  specification asks for \<open>asc\<close>, and the script navigates to \<open>orden=desc\<close>.\<close>

theorem C6_counterexample:
  "claimed_next_order table_orden_empty = ''asc''
   \<and> th_click (Some table_orden_empty) href_example
     = [Navigate (href_example\<lparr>searchParams := [(''cliente'', ''ACME''), (''orden'', ''desc'')]\<rparr>)]"
  by code_simp

subsection \<open>C7: marking a row as paid\<close>

lemma removeAll_filter_neq: "removeAll x xs = filter (\<lambda>c. c \<noteq> x) xs"
  by (induction xs) auto

lemma classList_remove_overdue: "classList_remove ''overdue'' el = without_overdue el"
  by (simp add: classList_remove_def without_overdue_def removeAll_filter_neq)

lemma without_overdue_id:
  assumes "''overdue'' \<notin> set (classList el)"
  shows "without_overdue el = el"
proof -
  have "filter (\<lambda>c. c \<noteq> ''overdue'') (classList el) = classList el"
    using assms by (induction "classList el") (auto simp: filter_id_conv)
  then show ?thesis by (simp add: without_overdue_def)
qed

lemma matches_sel_overdue: "matches sel_overdue el = (''overdue'' \<in> set (classList el))"
  by (simp add: matches_def sel_overdue_def classList_contains_def)

lemma remove_overdue_all:
  "map (\<lambda>el. if matches sel_overdue el then classList_remove ''overdue'' el else el) es
   = map without_overdue es"
  by (rule map_cong [OF refl])
     (simp add: matches_sel_overdue classList_remove_overdue without_overdue_id)

text \<open>
  C7, as amended. A double click on a \<open>td.venc-cell\<close> or \<open>td.venc-days\<close> whose row has
  a \<open>data-id\<close> attribute that is not empty sends one POST to the \<open>pagado\<close> endpoint of
  that id; when the response is truthy and its \<open>ok\<close> is not \<open>false\<close>, every element
  inside the row loses the class \<open>overdue\<close> and nothing else. When there is no row, or
  the row has no \<open>data-id\<close> or an empty one, no request is sent (and so no class
  changes).
\<close>

theorem C7_pagado:
  "td_dblclick tr =
     (case tr of
        None \<Rightarrow> []
      | Some r \<Rightarrow>
          (case getAttribute (row_el r) ''data-id'' of
             None \<Rightarrow> []
           | Some ident \<Rightarrow>
               if ident = [] then []
               else [Fetch \<lparr>req_endpoint = Pagado ident, req_verb = ''POST'', req_body = NoBody\<rparr>]))
   \<and> td_dblclick_then r' (Json data) =
       (if accepted data then r'\<lparr>row_descendants := map without_overdue (row_descendants r')\<rparr>
        else r', [])"
proof -
  have send: "td_dblclick tr =
     (case tr of
        None \<Rightarrow> []
      | Some r \<Rightarrow>
          (case getAttribute (row_el r) ''data-id'' of
             None \<Rightarrow> []
           | Some ident \<Rightarrow>
               if ident = [] then []
               else [Fetch \<lparr>req_endpoint = Pagado ident, req_verb = ''POST'', req_body = NoBody\<rparr>]))"
    by (simp add: td_dblclick_def falsy_def uri_component_def Let_def split: option.splits)
  have answer: "td_dblclick_then r' (Json data) =
       (if accepted data then r'\<lparr>row_descendants := map without_overdue (row_descendants r')\<rparr>
        else r', [])"
    by (simp add: td_dblclick_then_def accepted_def remove_overdue_all)
  from send answer show ?thesis by (rule conjI)
qed

lemma row_example_id: "getAttribute (row_el row_example) ''data-id'' = Some ''31''"
  by code_simp

lemma accepted_example: "accepted (JObj [(''ok'', JBool True)])"
  by code_simp

lemma row_example_cleared:
  "map without_overdue (row_descendants row_example) =
     [\<lparr>localName = ''td'', classList = [''venc-cell''], attributes = []\<rparr>,
      \<lparr>localName = ''td'', classList = [''num-cell''], attributes = []\<rparr>,
      \<lparr>localName = ''span'', classList = [''badge''], attributes = []\<rparr>]"
  by code_simp

text \<open>The theorem at a row with \<open>data-id\<close> 31 and the response \<open>{"ok": true}\<close>.\<close>

theorem C7_pagado_witness:
  "td_dblclick (Some row_example)
     = [Fetch \<lparr>req_endpoint = Pagado ''31'', req_verb = ''POST'', req_body = NoBody\<rparr>]
   \<and> row_descendants (fst (td_dblclick_then row_example (Json (JObj [(''ok'', JBool True)])))) =
     [\<lparr>localName = ''td'', classList = [''venc-cell''], attributes = []\<rparr>,
      \<lparr>localName = ''td'', classList = [''num-cell''], attributes = []\<rparr>,
      \<lparr>localName = ''span'', classList = [''badge''], attributes = []\<rparr>]"
  using C7_pagado [of "Some row_example" row_example "JObj [(''ok'', JBool True)]"]
  by (simp add: row_example_id accepted_example row_example_cleared)

text \<open>The statement of the specification fails at a row whose \<open>data-id\<close> attribute is empty: the row
  has the attribute, and no request is sent.\<close>

theorem C7_counterexample:
  "getAttribute (row_el row_empty_id) ''data-id'' = Some []
   \<and> td_dblclick (Some row_empty_id) = []"
  by code_simp

subsection \<open>C9: \<open>parseNum\<close>\<close>

lemma replace_global_removes: "replace_global c [] s = filter (\<lambda>x. x \<noteq> c) s"
  by (induction s) auto

lemma replace_first_char:
  "replace_first [c] [d] s =
     takeWhile (\<lambda>x. x \<noteq> c) s
     @ (case dropWhile (\<lambda>x. x \<noteq> c) s of [] \<Rightarrow> [] | y # rest \<Rightarrow> d # rest)"
  by (induction s) auto

text \<open>
  C9. \<open>parseNum\<close> returns a value for every string and never \<open>NaN\<close>: the value of
  \<open>Number\<close> on the trimmed string when that is not \<open>NaN\<close>; otherwise the value of
  \<open>Number\<close> on the trimmed string with every full stop removed and the first comma
  turned into a full stop, when that is not \<open>NaN\<close>; otherwise 0.
\<close>

theorem C9_parseNum:
  "parseNum B raw \<noteq> NaN
   \<and> parseNum B raw =
       (if Number_of_string B (trim raw) \<noteq> NaN then Number_of_string B (trim raw)
        else if Number_of_string B (first_comma_to_dot (without_dots (trim raw))) \<noteq> NaN
        then Number_of_string B (first_comma_to_dot (without_dots (trim raw)))
        else Val (zero_value B))"
proof -
  have es: "replace_first '','' ''.'' (replace_global CHR ''.'' [] (trim raw))
      = first_comma_to_dot (without_dots (trim raw))"
    by (simp only: replace_global_removes replace_first_char first_comma_to_dot_def
        without_dots_def)
  have eq: "parseNum B raw =
       (if Number_of_string B (trim raw) \<noteq> NaN then Number_of_string B (trim raw)
        else if Number_of_string B (first_comma_to_dot (without_dots (trim raw))) \<noteq> NaN
        then Number_of_string B (first_comma_to_dot (without_dots (trim raw)))
        else Val (zero_value B))"
    unfolding parseNum_def Let_def es by simp
  have "parseNum B raw \<noteq> NaN"
    unfolding eq by simp
  with eq show ?thesis by (rule conjI [rotated])
qed

lemma parseNum_examples:
  "Number_of_string int_builtins (trim ''1.2.3'') = NaN
   \<and> first_comma_to_dot (without_dots (trim ''1.2.3'')) = ''123''
   \<and> Number_of_string int_builtins ''123'' = Val 123"
  by code_simp

text \<open>The theorem at a number with two full stops.\<close>

theorem C9_parseNum_witness:
  "parseNum int_builtins ''1.2.3'' = Val 123"
  using C9_parseNum [of int_builtins "''1.2.3''"]
  by (simp add: parseNum_examples)

subsection \<open>The update of the mark classes\<close>

lemma update_cell_twice:
  "update_cell (update_cell p r f) r g = update_cell p r (\<lambda>e. g (f e))"
proof (cases r)
  case (InTable ti ci)
  show ?thesis
  proof (cases "ti < length (tables p)")
    case True
    then show ?thesis
      by (cases "ci < length (table_descendants (tables p ! ti))")
         (simp_all add: InTable update_cell_def Let_def list_update_beyond)
  next
    case False
    then show ?thesis by (simp add: InTable update_cell_def Let_def list_update_beyond)
  qed
next
  case (Orphan i)
  then show ?thesis
    by (cases "i < length (orphans p)") (simp_all add: update_cell_def list_update_beyond)
qed

lemma get_cell_update_cell:
  "valid_ref p r \<Longrightarrow> get_cell (update_cell p r f) r = f (get_cell p r)"
  by (cases r) (simp_all add: valid_ref_def get_cell_def update_cell_def Let_def)

lemma computeSumBar_descendants: "table_descendants (computeSumBar B t) = table_descendants t"
  by (simp add: computeSumBar_def Let_def split: option.splits)

lemma get_cell_computeSumBar_closest:
  "get_cell (computeSumBar_closest B p r) r' = get_cell p r'"
proof (cases r)
  case (Orphan i)
  then show ?thesis by (simp add: computeSumBar_closest_def)
next
  case (InTable ti ci)
  have "table_descendants ((tables p)[ti := computeSumBar B (tables p ! ti)] ! tj)
      = table_descendants (tables p ! tj)" for tj
    by (cases "ti < length (tables p)")
       (simp_all add: nth_list_update computeSumBar_descendants list_update_beyond)
  then show ?thesis
    by (cases r') (simp_all add: InTable get_cell_def computeSumBar_closest_def)
qed

lemma removeAll_filter_both:
  "removeAll x (filter P xs) = filter (\<lambda>c. P c \<and> c \<noteq> x) xs"
  by (induction xs) auto

lemma remove_mark_classes_step:
  "i \<le> 9 \<Longrightarrow> remove_mark_classes i e
     = remove_mark_classes (Suc i) (classList_remove (''mark-'' @ decimal (int i)) e)"
  by (subst remove_mark_classes.simps) (simp del: remove_mark_classes.simps)

lemma remove_mark_classes_stop: "remove_mark_classes 10 e = e"
  by (subst remove_mark_classes.simps) (simp del: remove_mark_classes.simps)

lemma remove_mark_classes_foldl:
  "i \<le> 10 \<Longrightarrow> remove_mark_classes i e
     = foldl (\<lambda>e k. classList_remove (''mark-'' @ decimal (int k)) e) e [i..<10]"
proof (induction "10 - i" arbitrary: i e)
  case 0
  then have "i = 10" by simp
  then show ?case by (simp add: remove_mark_classes_stop del: remove_mark_classes.simps)
next
  case (Suc n)
  then have i: "i \<le> 9" and n: "n = 10 - Suc i" by simp_all
  have "[i..<10] = i # [Suc i..<10]"
    using i by (simp add: upt_conv_Cons)
  with Suc.hyps(1) [OF n] i show ?case
    by (simp add: remove_mark_classes_step del: remove_mark_classes.simps)
qed

lemma foldl_classList_remove:
  "foldl (\<lambda>e k. classList_remove (f k) e) e ks
     = e\<lparr>classList := filter (\<lambda>c. c \<notin> set (map f ks)) (classList e)\<rparr>"
proof (induction ks arbitrary: e)
  case Nil
  show ?case by simp
next
  case (Cons k ks)
  have "foldl (\<lambda>e k. classList_remove (f k) e) e (k # ks)
      = foldl (\<lambda>e k. classList_remove (f k) e) (classList_remove (f k) e) ks"
    by simp
  also have "\<dots> = (classList_remove (f k) e)\<lparr>classList :=
      filter (\<lambda>c. c \<notin> set (map f ks)) (classList (classList_remove (f k) e))\<rparr>"
    by (rule Cons)
  also have "\<dots> = e\<lparr>classList := filter (\<lambda>c. c \<notin> set (map f (k # ks))) (classList e)\<rparr>"
    by (simp add: classList_remove_def removeAll_filter_neq conj_commute)
  finally show ?case .
qed

lemma mark_names_upt: "map (\<lambda>k. ''mark-'' @ decimal (int k)) [1..<10] = mark_names"
  by code_simp

lemma remove_mark_classes_all:
  "remove_mark_classes 1 td =
     td\<lparr>classList := filter (\<lambda>c. c \<notin> set mark_names) (classList td)\<rparr>"
proof -
  have "remove_mark_classes 1 td
      = foldl (\<lambda>e k. classList_remove (''mark-'' @ decimal (int k)) e) td [1..<10]"
    by (rule remove_mark_classes_foldl) simp
  then show ?thesis
    by (simp only: foldl_classList_remove mark_names_upt)
qed

lemma set_add_tokens: "set (add_tokens ts cl) = set ts \<union> set cl"
  by (induction ts arbitrary: cl) auto

lemma mark_classes_code:
  "(case m of
      None \<Rightarrow> remove_mark_classes 1 (classList_remove ''marked'' e)
    | Some n \<Rightarrow>
        if n > 0
        then classList_add [''marked'', ''mark-'' @ decimal n]
               (remove_mark_classes 1 (classList_remove ''marked'' e))
        else remove_mark_classes 1 (classList_remove ''marked'' e))
   = set_mark_classes m e"
proof -
  have "remove_mark_classes 1 (classList_remove ''marked'' e)
      = (classList_remove ''marked'' e)\<lparr>classList :=
          filter (\<lambda>c. c \<notin> set mark_names) (classList (classList_remove ''marked'' e))\<rparr>"
    by (rule remove_mark_classes_all)
  also have "\<dots>
      = e\<lparr>classList := filter (\<lambda>c. c \<noteq> ''marked'' \<and> c \<notin> set mark_names) (classList e)\<rparr>"
    by (simp add: classList_remove_def removeAll_filter_neq)
  finally have base: "remove_mark_classes 1 (classList_remove ''marked'' e)
      = e\<lparr>classList := filter (\<lambda>c. c \<noteq> ''marked'' \<and> c \<notin> set mark_names) (classList e)\<rparr>" .
  show ?thesis
    unfolding base
    by (cases m) (simp_all add: set_mark_classes_def classList_add_def)
qed

lemma apply_mark_response_eq:
  "apply_mark_response B p td data =
     (if accepted data
      then computeSumBar_closest B (update_cell p td (set_mark_classes (mark_of_response data))) td
      else p)"
proof (cases "accepted data")
  case False
  then show ?thesis by (auto simp: apply_mark_response_def accepted_def)
next
  case True
  have f: "(\<lambda>e. case mark_of_response data of
              None \<Rightarrow> remove_mark_classes 1 (classList_remove ''marked'' e)
            | Some n \<Rightarrow>
                if n > 0
                then classList_add [''marked'', ''mark-'' @ decimal n]
                       (remove_mark_classes 1 (classList_remove ''marked'' e))
                else remove_mark_classes 1 (classList_remove ''marked'' e))
        = set_mark_classes (mark_of_response data)"
    by (rule ext) (rule mark_classes_code)
  have "(case mark_of_response data of
           None \<Rightarrow> update_cell (update_cell p td (classList_remove ''marked'')) td
                     (remove_mark_classes 1)
         | Some m \<Rightarrow>
             if m > 0
             then update_cell (update_cell (update_cell p td (classList_remove ''marked'')) td
                     (remove_mark_classes 1)) td
                    (classList_add [''marked'', ''mark-'' @ decimal m])
             else update_cell (update_cell p td (classList_remove ''marked'')) td
                    (remove_mark_classes 1))
      = update_cell p td (set_mark_classes (mark_of_response data))"
    unfolding f [symmetric]
    by (cases "mark_of_response data") (simp_all add: update_cell_twice del: remove_mark_classes.simps)
  with True show ?thesis
    by (simp add: apply_mark_response_def accepted_def Let_def
        del: remove_mark_classes.simps One_nat_def)
qed

lemma list_all_update:
  "list_all P xs \<Longrightarrow> P y \<Longrightarrow> list_all P (xs[i := y])"
  using set_update_subset_insert [of xs i y] by (auto simp: list_all_iff)

lemma all_elements_update_cell:
  assumes "list_all P (all_elements p)" and "\<And>e. P (f e)"
  shows "list_all P (all_elements (update_cell p r f))"
proof (cases r)
  case (Orphan i)
  with assms show ?thesis
    by (simp add: all_elements_def update_cell_def list_all_update)
next
  case (InTable ti ci)
  have tabs: "list_all (\<lambda>t. list_all P (table_descendants t)) (tables p)"
    and orph: "list_all P (orphans p)"
    using assms(1) by (auto simp: all_elements_def list_all_iff)
  have "list_all (\<lambda>t. list_all P (table_descendants t))
          ((tables p)[ti := (tables p ! ti)\<lparr>table_descendants :=
              (table_descendants (tables p ! ti))[ci := f (table_descendants (tables p ! ti) ! ci)]\<rparr>])"
  proof (cases "ti < length (tables p)")
    case True
    then have "list_all P (table_descendants (tables p ! ti))"
      using tabs by (simp add: list_all_length)
    then have "list_all P (table_descendants ((tables p ! ti)\<lparr>table_descendants :=
        (table_descendants (tables p ! ti))[ci := f (table_descendants (tables p ! ti) ! ci)]\<rparr>))"
      using assms(2) by (simp add: list_all_update)
    with tabs show ?thesis by (rule list_all_update)
  next
    case False
    then show ?thesis using tabs by (simp add: list_update_beyond)
  qed
  with orph show ?thesis
    by (auto simp: InTable all_elements_def update_cell_def Let_def list_all_iff)
qed

lemma all_elements_computeSumBar_closest:
  "all_elements (computeSumBar_closest B p r) = all_elements p"
proof (cases r)
  case (Orphan i)
  then show ?thesis by (simp add: computeSumBar_closest_def)
next
  case (InTable ti ci)
  have "map table_descendants ((tables p)[ti := computeSumBar B (tables p ! ti)])
      = map table_descendants (tables p)"
    using filter_list_update_same [of "\<lambda>t. True" "computeSumBar B" table_descendants "tables p" ti]
    by (simp add: computeSumBar_descendants)
  then show ?thesis by (simp add: InTable all_elements_def computeSumBar_closest_def)
qed

lemma concat_map_map: "concat (map (\<lambda>t. map g (h t)) ts) = map g (concat (map h ts))"
  by (induction ts) simp_all

lemma all_elements_DOMContentLoaded:
  "all_elements (fst (DOMContentLoaded B p)) = init_num_cells (all_elements p)"
proof -
  have d: "table_descendants (if c then computeSumBar B x else x) = table_descendants x" for c x
    by (simp add: computeSumBar_descendants)
  have "map table_descendants (tables (fst (DOMContentLoaded B p)))
      = map (\<lambda>t. map (\<lambda>e. if matches sel_td_num_cell e then cleanup_num_cell e else e)
                 (table_descendants t)) (tables p)"
    by (simp add: DOMContentLoaded_def Let_def comp_def d init_num_cells_def)
  moreover have "orphans (fst (DOMContentLoaded B p)) = init_num_cells (orphans p)"
    by (simp add: DOMContentLoaded_def Let_def)
  ultimately show ?thesis
    by (simp add: all_elements_def concat_map_map init_num_cells_def)
qed

lemma cell_ok_init:
  "cell_ok (if matches sel_td_num_cell e then cleanup_num_cell e else e)"
proof (cases "matches sel_td_num_cell e \<and> ''marked'' \<in> set (classList e)")
  case False
  then show ?thesis
    by (auto simp: cell_ok_def cleanup_num_cell_def classList_remove_def)
next
  case True
  show ?thesis
  proof (cases "list_ex (\<lambda>n. n \<in> set (classList e)) mark_names")
    case True
    then have "cleanup_num_cell e = e"
      by (auto simp: cleanup_num_cell_def classList_contains_def mark_names_def)
    with True show ?thesis by (simp add: cell_ok_def)
  next
    case False
    then have "cleanup_num_cell e = classList_remove ''marked'' e"
      by (simp add: cleanup_num_cell_def classList_contains_def mark_names_def)
    then show ?thesis
      using True by (simp add: cell_ok_def classList_remove_def)
  qed
qed

lemma mark_name_in_range:
  assumes "0 < n" "n \<le> 9"
  shows "''mark-'' @ decimal n \<in> set mark_names"
proof -
  define f where "f = (\<lambda>k. ''mark-'' @ decimal (int k))"
  have "nat n \<in> set [1..<10]" using assms by auto
  then have "f (nat n) \<in> f ` set [1..<10]" by (rule imageI)
  then have "f (nat n) \<in> set (map f [1..<10])" by (simp only: set_map)
  moreover have "map f [1..<10] = mark_names"
    unfolding f_def by (rule mark_names_upt)
  ultimately have "f (nat n) \<in> set mark_names" by (simp only:)
  moreover have "f (nat n) = ''mark-'' @ decimal n"
    using assms by (simp add: f_def)
  ultimately show ?thesis by (simp only:)
qed

lemma marked_set_mark_classes:
  "(''marked'' \<in> set (classList (set_mark_classes m e)))
     = (case m of None \<Rightarrow> False | Some n \<Rightarrow> 0 < n)"
  by (cases m) (simp_all add: set_mark_classes_def set_add_tokens)

lemma mark_m_set_mark_classes:
  "0 < n \<Longrightarrow> ''mark-'' @ decimal n \<in> set (classList (set_mark_classes (Some n) e))"
  by (simp add: set_mark_classes_def set_add_tokens)

lemma cell_ok_set_mark_classes:
  assumes "case m of None \<Rightarrow> True | Some n \<Rightarrow> n \<le> 9"
  shows "cell_ok (set_mark_classes m e)"
proof (cases "''marked'' \<in> set (classList (set_mark_classes m e))")
  case False
  then show ?thesis by (simp add: cell_ok_def)
next
  case True
  then obtain n where m: "m = Some n" and pos: "0 < n"
    by (cases m) (simp_all add: marked_set_mark_classes)
  from assms m have "n \<le> 9" by simp
  with pos have "''mark-'' @ decimal n \<in> set mark_names"
    by (rule mark_name_in_range)
  moreover have "''mark-'' @ decimal n \<in> set (classList (set_mark_classes m e))"
    unfolding m using pos by (rule mark_m_set_mark_classes)
  ultimately show ?thesis
    by (auto simp: cell_ok_def list_ex_iff)
qed

lemma get_cell_apply_mark_response:
  assumes "valid_ref p td"
  shows "get_cell (apply_mark_response B p td data) td
     = (if accepted data then set_mark_classes (mark_of_response data) (get_cell p td)
        else get_cell p td)"
  using assms
  by (simp add: apply_mark_response_eq get_cell_computeSumBar_closest get_cell_update_cell)

lemma page_ok_apply_mark_response:
  assumes "page_ok p" "mark_at_most_9 data"
  shows "page_ok (apply_mark_response B p td data)"
proof (cases "accepted data")
  case False
  with assms show ?thesis by (simp add: apply_mark_response_eq)
next
  case True
  have "cell_ok (set_mark_classes (mark_of_response data) e)" for e
    using assms(2) by (intro cell_ok_set_mark_classes) (simp add: mark_at_most_9_def)
  with assms(1) have "list_all cell_ok
      (all_elements (update_cell p td (set_mark_classes (mark_of_response data))))"
    unfolding page_ok_def by (rule all_elements_update_cell)
  with True show ?thesis
    by (simp add: apply_mark_response_eq page_ok_def all_elements_computeSumBar_closest)
qed

subsection \<open>C3: where the mark classes come from\<close>

text \<open>
  C3, as amended. The update of the mark classes is not optimistic. The listeners change no
  class when they send the request (they only emit effects). When the response arrives, is
  truthy and its \<open>ok\<close> is not \<open>false\<close>, the classes \<open>marked\<close> and \<open>mark-1\<close> to
  \<open>mark-9\<close> of the cell are removed and, for a positive \<open>m = parseInt(data.mark || 0)\<close>,
  \<open>marked\<close> and \<open>mark-m\<close> are added: the classes are set from the mark in the response
  payload, not from the value that was sent. Otherwise the cell is left as it was.
\<close>

theorem C3_mark_classes_from_response:
  assumes "valid_ref p td"
  shows "get_cell (fst (td_click_then B p td (Json data))) td
           = (if accepted data then set_mark_classes (mark_of_response data) (get_cell p td)
              else get_cell p td)
       \<and> get_cell (fst (document_keydown_then B (p\<lparr>lastClickedCell := Some td\<rparr>) (Json data))) td
           = (if accepted data then set_mark_classes (mark_of_response data) (get_cell p td)
              else get_cell p td)"
proof -
  have v: "valid_ref (p\<lparr>lastClickedCell := Some td\<rparr>) td"
    using assms by (cases td) (simp_all add: valid_ref_def)
  have g: "get_cell (p\<lparr>lastClickedCell := Some td\<rparr>) td = get_cell p td"
    by (cases td) (simp_all add: get_cell_def)
  have "get_cell (fst (td_click_then B p td (Json data))) td
           = (if accepted data then set_mark_classes (mark_of_response data) (get_cell p td)
              else get_cell p td)"
    using get_cell_apply_mark_response [OF assms, of B data] by (simp add: td_click_then_def)
  moreover have "get_cell (fst (document_keydown_then B (p\<lparr>lastClickedCell := Some td\<rparr>) (Json data))) td
           = (if accepted data then set_mark_classes (mark_of_response data) (get_cell p td)
              else get_cell p td)"
    using get_cell_apply_mark_response [OF v, of B data]
    by (simp add: document_keydown_then_def g)
  ultimately show ?thesis by (rule conjI)
qed

lemma page_example_valid: "valid_ref page_example (InTable 0 0)"
  by code_simp

lemma page_example_mark_5:
  "accepted response_mark_5
   \<and> set_mark_classes (mark_of_response response_mark_5) (get_cell page_example (InTable 0 0))
       = td_example\<lparr>classList := [''num-cell'', ''marked'', ''mark-5'']\<rparr>"
  by code_simp

text \<open>The theorem at the first cell of the example page and a response with mark 5.\<close>

theorem C3_mark_classes_from_response_witness:
  "get_cell (fst (td_click_then int_builtins page_example (InTable 0 0) (Json response_mark_5)))
     (InTable 0 0)
   = td_example\<lparr>classList := [''num-cell'', ''marked'', ''mark-5'']\<rparr>"
  using C3_mark_classes_from_response [OF page_example_valid, of int_builtins response_mark_5]
  by (simp add: page_example_mark_5)

text \<open>The statement of the specification fails at a Ctrl click: the mark sent is 1, from which the
  classes would be \<open>marked\<close> and \<open>mark-1\<close>; the response carries the mark 5 and the
  cell gets \<open>marked\<close> and \<open>mark-5\<close>.\<close>

theorem C3_counterexample:
  "sent_marks (td_click page_example (InTable 0 0) ctrl_click) = [1]
   \<and> classList (set_mark_classes (Some 1) (get_cell page_example (InTable 0 0)))
       = [''num-cell'', ''marked'', ''mark-1'']
   \<and> classList (get_cell (fst (td_click_then int_builtins page_example (InTable 0 0)
                                  (Json response_mark_5))) (InTable 0 0))
       = [''num-cell'', ''marked'', ''mark-5'']"
  by code_simp

subsection \<open>C4: a failed mark request\<close>

text \<open>
  C4. When the promise chain of a mark request fails (\<open>fetch\<close> rejects, the body is no
  JSON, the response is falsy or has \<open>ok === false\<close>), the page is left as it was: no
  class of any cell and no sum bar changes. The callbacks only write to the console; they
  send no request, so there is no retry, and there is nothing to roll back.
\<close>

theorem C4_failed_mark_changes_nothing:
  assumes "mark_failed out"
  shows "fst (td_click_then B p td out) = p
       \<and> fst (document_keydown_then B p out) = p
       \<and> list_all is_console (snd (td_click_then B p td out))
       \<and> list_all is_console (snd (document_keydown_then B p out))
       \<and> requests (snd (td_click_then B p td out)) = []
       \<and> requests (snd (document_keydown_then B p out)) = []"
proof (cases out)
  case FetchRejected
  then show ?thesis
    by (simp add: td_click_then_def document_keydown_then_def err_def is_console_def requests_def)
next
  case JsonRejected
  then show ?thesis
    by (simp add: td_click_then_def document_keydown_then_def err_def is_console_def requests_def)
next
  case (Json data)
  with assms have refused: "\<not> accepted data" by (simp add: mark_failed_def)
  then have same: "apply_mark_response B p c data = p" for c
    by (simp add: apply_mark_response_eq)
  have stop: "\<not> truthy data \<or> get_prop data ''ok'' = Some (JBool False)"
    using refused by (simp add: accepted_def)
  show ?thesis
    using stop
    by (cases "lastClickedCell p")
       (simp_all add: Json td_click_then_def document_keydown_then_def same log_def
          is_console_def requests_def)
qed

lemma refused_failed: "mark_failed (Json response_refused)"
  by code_simp

text \<open>The theorem at the example page and a response with \<open>ok\<close> false.\<close>

theorem C4_failed_mark_changes_nothing_witness:
  "fst (td_click_then int_builtins page_example (InTable 0 0) (Json response_refused)) = page_example
   \<and> fst (document_keydown_then int_builtins page_example (Json response_refused)) = page_example
   \<and> requests (snd (td_click_then int_builtins page_example (InTable 0 0) (Json response_refused))) = []"
  using C4_failed_mark_changes_nothing [OF refused_failed, of int_builtins page_example "InTable 0 0"]
  by simp

subsection \<open>C8: marked cells carry a mark class\<close>

text \<open>
  C8, as amended. After the initialisation, every \<open>td.num-cell\<close> that carries \<open>marked\<close>
  carries one of \<open>mark-1\<close> to \<open>mark-9\<close>, and this is kept by every promise chain of a
  mark request whose response has a mark \<open>parseInt(data.mark || 0)\<close> of at most 9 (or no
  number). During the initialisation a \<open>td.num-cell\<close> with \<open>marked\<close> and none of
  \<open>mark-1\<close> to \<open>mark-9\<close> loses \<open>marked\<close>. The update of a cell sets its classes from
  the mark \<open>m\<close> of the response, and the result carries \<open>marked\<close> only for a positive
  \<open>m\<close> and then together with \<open>mark-m\<close>.
\<close>

theorem C8_marked_cells:
  "page_ok (fst (DOMContentLoaded B p))
   \<and> (page_ok p \<and> outcome_at_most_9 out \<longrightarrow>
        page_ok (fst (td_click_then B p td out)) \<and> page_ok (fst (document_keydown_then B p out)))
   \<and> (matches sel_td_num_cell e \<and> \<not> list_ex (\<lambda>n. n \<in> set (classList e)) mark_names \<longrightarrow>
        ''marked'' \<notin> set (classList (cleanup_num_cell e)))
   \<and> (valid_ref p td \<and> accepted data \<longrightarrow>
        get_cell (apply_mark_response B p td data) td
          = set_mark_classes (mark_of_response data) (get_cell p td))
   \<and> (''marked'' \<in> set (classList (set_mark_classes m e)))
        = (case m of
             None \<Rightarrow> False
           | Some n \<Rightarrow> 0 < n \<and> ''mark-'' @ decimal n \<in> set (classList (set_mark_classes m e)))"
proof -
  have "list_all cell_ok
      (map (\<lambda>e. if matches sel_td_num_cell e then cleanup_num_cell e else e) xs)" for xs
    by (induction xs) (simp_all add: cell_ok_init split del: if_split)
  then have init: "page_ok (fst (DOMContentLoaded B p))"
    by (simp only: page_ok_def all_elements_DOMContentLoaded init_num_cells_def)
  have keep: "page_ok (fst (td_click_then B p td out)) \<and> page_ok (fst (document_keydown_then B p out))"
    if "page_ok p" "outcome_at_most_9 out"
  proof (cases out)
    case (Json data)
    with that have "mark_at_most_9 data" by (simp add: outcome_at_most_9_def)
    with that(1) have "page_ok (apply_mark_response B p c data)" for c
      by (rule page_ok_apply_mark_response)
    with that(1) show ?thesis
      by (cases "lastClickedCell p") (simp_all add: Json td_click_then_def document_keydown_then_def)
  qed (simp_all add: that td_click_then_def document_keydown_then_def)
  have clean: "''marked'' \<notin> set (classList (cleanup_num_cell e))"
    if "matches sel_td_num_cell e" "\<not> list_ex (\<lambda>n. n \<in> set (classList e)) mark_names"
    using that
    by (simp add: cleanup_num_cell_def classList_contains_def classList_remove_def mark_names_def)
  have cell: "get_cell (apply_mark_response B p td data) td
          = set_mark_classes (mark_of_response data) (get_cell p td)"
    if "valid_ref p td" "accepted data"
    using that by (simp add: get_cell_apply_mark_response)
  have marked: "(''marked'' \<in> set (classList (set_mark_classes m e)))
        = (case m of
             None \<Rightarrow> False
           | Some n \<Rightarrow> 0 < n \<and> ''mark-'' @ decimal n \<in> set (classList (set_mark_classes m e)))"
  proof (cases m)
    case None
    then show ?thesis by (simp add: marked_set_mark_classes)
  next
    case (Some n)
    show ?thesis
      using mark_m_set_mark_classes [of n e]
      by (auto simp add: Some marked_set_mark_classes simp del: append.simps)
  qed
  from init keep clean cell marked show ?thesis by blast
qed

lemma page_example_ok: "page_ok page_example \<and> outcome_at_most_9 (Json response_mark_3)"
  by code_simp

text \<open>The theorem at the example page and a response with mark 3.\<close>

theorem C8_marked_cells_witness:
  "page_ok (fst (DOMContentLoaded int_builtins page_example))
   \<and> page_ok (fst (td_click_then int_builtins page_example (InTable 0 0) (Json response_mark_3)))"
  using C8_marked_cells [of int_builtins page_example "Json response_mark_3" "InTable 0 0"]
  by (simp add: page_example_ok)

text \<open>The statement of the specification fails at a response with mark 10: the example page satisfies
  the invariant, and afterwards its first cell carries \<open>marked\<close> and \<open>mark-10\<close>, none
  of \<open>mark-1\<close> to \<open>mark-9\<close>.\<close>

theorem C8_counterexample:
  "page_ok page_example
   \<and> classList (get_cell (fst (td_click_then int_builtins page_example (InTable 0 0)
                                  (Json response_mark_10))) (InTable 0 0))
       = [''num-cell'', ''marked'', ''mark-10'']
   \<and> \<not> page_ok (fst (td_click_then int_builtins page_example (InTable 0 0) (Json response_mark_10)))"
  by code_simp

subsection \<open>The sum bar of a table\<close>

lemma sumMarked_forEach_foldl:
  "sumMarked_forEach B s cells =
     foldl (plus_number B) s
       (map (\<lambda>cell. parseNum B (case getAttribute cell ''data-val'' of None \<Rightarrow> ''0'' | Some v \<Rightarrow> v))
          cells)"
  by (induction cells arbitrary: s) (simp_all add: Let_def)

lemma matches_sel_marked_col:
  "matches (sel_marked_col col) e =
     (localName e = ''td'' \<and> ''num-cell'' \<in> set (classList e) \<and> ''marked'' \<in> set (classList e)
      \<and> getAttribute e ''data-col'' = Some col)"
  by (simp add: matches_def sel_marked_col_def classList_contains_def)

lemma sumMarked_total: "sumMarked B t col = marked_total B t col"
  by (simp add: sumMarked_def marked_total_def sumMarked_forEach_foldl querySelectorAll_def
      matches_sel_marked_col)

lemma computeSumBar_card:
  "closest_card (computeSumBar B t) =
     (case closest_card t of
        None \<Rightarrow> None
      | Some found \<Rightarrow>
          Some (Some \<lparr>innerHTML = Sums (fmt B (sumMarked B t ''DEBE'')) (fmt B (sumMarked B t ''HABER'')),
                      style_display =
                        (if strict_equals_zero B (sumMarked B t ''DEBE'')
                            \<and> strict_equals_zero B (sumMarked B t ''HABER'')
                         then ''none'' else ''block'')\<rparr>))"
  by (simp add: computeSumBar_def Let_def split: option.splits)

lemma computeSumBar_el: "table_el (computeSumBar B t) = table_el t"
  by (simp add: computeSumBar_def Let_def split: option.splits)

lemma computeSumBar_in_card: "(closest_card (computeSumBar B t) = None) = (closest_card t = None)"
  by (simp add: computeSumBar_def Let_def split: option.splits)

lemma marked_total_computeSumBar: "marked_total B (computeSumBar B t) col = marked_total B t col"
  by (simp add: marked_total_def computeSumBar_descendants)

lemma computeSumBar_shows_totals:
  "closest_card t \<noteq> None \<Longrightarrow> bar_shows_totals B (computeSumBar B t)"
  by (auto simp: bar_shows_totals_def shown_html_def computeSumBar_card sumMarked_total
      marked_total_computeSumBar)

lemma recomputed_table_ok:
  "if matches sel_reorder_table (table_el (computeSumBar B t))
      \<and> closest_card (computeSumBar B t) \<noteq> None
   then bar_shows_totals B (computeSumBar B t) else True"
proof (cases "closest_card t")
  case None
  then have "closest_card (computeSumBar B t) = None" by (simp add: computeSumBar_in_card)
  then show ?thesis by simp
next
  case (Some found)
  then have "bar_shows_totals B (computeSumBar B t)" by (simp add: computeSumBar_shows_totals)
  then show ?thesis by simp
qed

lemma bars_ok_DOMContentLoaded: "bars_ok B (fst (DOMContentLoaded B p))"
proof -
  define Q where "Q = (\<lambda>t'. if matches sel_reorder_table (table_el t') \<and> closest_card t' \<noteq> None
                           then bar_shows_totals B t' else True)"
  define g where "g = (\<lambda>t1. if matches sel_reorder_table (table_el t1) then computeSumBar B t1 else t1)"
  have one: "Q (g t1)" for t1
  proof (cases "matches sel_reorder_table (table_el t1)")
    case True
    then have "g t1 = computeSumBar B t1" by (simp add: g_def)
    then show ?thesis unfolding Q_def using recomputed_table_ok [of B t1] by (simp only:)
  next
    case False
    then show ?thesis by (simp add: Q_def g_def)
  qed
  have all: "list_all Q (map g ts)" for ts
    by (induction ts) (simp_all add: one)
  have "tables (fst (DOMContentLoaded B p))
      = map g (map (\<lambda>t. t\<lparr>table_descendants := init_num_cells (table_descendants t)\<rparr>) (tables p))"
    by (simp add: DOMContentLoaded_def Let_def g_def)
  then have "list_all Q (tables (fst (DOMContentLoaded B p)))"
    by (simp only: all)
  then show ?thesis by (simp only: bars_ok_def Q_def)
qed

lemma bars_ok_apply_mark_response:
  assumes "bars_ok B p"
  shows "bars_ok B (apply_mark_response B p td data)"
proof (cases "accepted data")
  case False
  with assms show ?thesis by (simp add: apply_mark_response_eq)
next
  case True
  show ?thesis
  proof (cases td)
    case (Orphan i)
    with assms True show ?thesis
      by (simp add: apply_mark_response_eq computeSumBar_closest_def update_cell_def bars_ok_def)
  next
    case (InTable ti ci)
    define f where "f = set_mark_classes (mark_of_response data)"
    define t where "t = (tables p ! ti)\<lparr>table_descendants :=
        (table_descendants (tables p ! ti))[ci := f (table_descendants (tables p ! ti) ! ci)]\<rparr>"
    have tabs: "tables (apply_mark_response B p td data)
        = (if ti < length (tables p) then (tables p)[ti := computeSumBar B t] else tables p)"
      using True
      by (simp add: apply_mark_response_eq InTable computeSumBar_closest_def update_cell_def
          Let_def f_def t_def list_update_beyond)
    have new: "if matches sel_reorder_table (table_el (computeSumBar B t))
                  \<and> closest_card (computeSumBar B t) \<noteq> None
               then bar_shows_totals B (computeSumBar B t) else True"
      by (rule recomputed_table_ok)
    show ?thesis
      using assms new unfolding bars_ok_def tabs
      by (cases "ti < length (tables p)") (simp_all add: list_all_update split del: if_split)
  qed
qed

subsection \<open>C5 and C10: the sum bar\<close>

text \<open>
  C5. After \<open>computeSumBar\<close> has run on a table, the sum bar of the card around the table
  shows, as its Debe and its Haber text, the formatted sum of \<open>parseNum(data-val)\<close> over
  the \<open>td.num-cell\<close> cells of the table that carry the class \<open>marked\<close> and have
  \<open>data-col\<close> DEBE, respectively HABER; a table outside every card gets no sum bar. On
  the page this holds for every \<open>table.reorder-table\<close> inside a card after the
  initialisation, and every promise chain of a mark request keeps it so.
\<close>

theorem C5_sum_bar_totals:
  "shown_html (computeSumBar B t) =
     (case closest_card t of
        None \<Rightarrow> None
      | Some found \<Rightarrow>
          Some (Sums (fmt B (marked_total B t ''DEBE'')) (fmt B (marked_total B t ''HABER''))))
   \<and> bars_ok B (fst (DOMContentLoaded B p))
   \<and> (bars_ok B p \<longrightarrow>
        bars_ok B (fst (td_click_then B p td out))
        \<and> bars_ok B (fst (document_keydown_then B p out)))"
proof -
  have one: "shown_html (computeSumBar B t) =
     (case closest_card t of
        None \<Rightarrow> None
      | Some found \<Rightarrow>
          Some (Sums (fmt B (marked_total B t ''DEBE'')) (fmt B (marked_total B t ''HABER''))))"
    by (simp add: shown_html_def computeSumBar_card sumMarked_total split: option.splits)
  have keep: "bars_ok B (fst (td_click_then B p td out))
        \<and> bars_ok B (fst (document_keydown_then B p out))" if ok: "bars_ok B p"
  proof (cases out)
    case (Json data)
    have "bars_ok B (apply_mark_response B p c data)" for c
      using ok by (rule bars_ok_apply_mark_response)
    with ok show ?thesis
      by (cases "lastClickedCell p") (simp_all add: Json td_click_then_def document_keydown_then_def)
  qed (simp_all add: ok td_click_then_def document_keydown_then_def)
  from one bars_ok_DOMContentLoaded [of B p] keep show ?thesis by blast
qed

lemma sum_example_DEBE: "marked_total int_builtins sum_table_example ''DEBE'' = Val 100"
  by code_simp

lemma sum_example_HABER: "marked_total int_builtins sum_table_example ''HABER'' = Val 0"
  by code_simp

lemma sum_example_card: "closest_card sum_table_example = Some None"
  by code_simp

lemma sum_example_fmt:
  "fmt int_builtins (Val 100) = ''100,00'' \<and> fmt int_builtins (Val 0) = ''0,00''"
  by code_simp

lemma sum_page_initialised:
  "bars_ok int_builtins (fst (DOMContentLoaded int_builtins sum_page_example))"
  by code_simp

text \<open>The theorem at the example table, with the builtins read on integers, and at the
  initialised example page when the response to a click on its second cell gives the
  mark 3.\<close>

theorem C5_sum_bar_totals_witness:
  "shown_html (computeSumBar int_builtins sum_table_example) = Some (Sums ''100,00'' ''0,00'')
   \<and> bars_ok int_builtins
        (fst (td_click_then int_builtins (fst (DOMContentLoaded int_builtins sum_page_example))
                (InTable 0 1) (Json response_mark_3)))"
  using C5_sum_bar_totals [of int_builtins sum_table_example
      "fst (DOMContentLoaded int_builtins sum_page_example)" "InTable 0 1" "Json response_mark_3"]
  by (simp add: sum_example_DEBE sum_example_HABER sum_example_card sum_example_fmt
      sum_page_initialised)

text \<open>
  C10. After \<open>computeSumBar\<close> has run on a table inside a card, the display style of the
  sum bar is \<open>none\<close> when the marked DEBE sum and the marked HABER sum are both
  \<open>=== 0\<close>, and \<open>block\<close> otherwise; so it is \<open>none\<close> exactly when both sums are
  zero.
\<close>

theorem C10_sum_bar_display:
  "shown_display (computeSumBar B t) =
     (case closest_card t of
        None \<Rightarrow> None
      | Some found \<Rightarrow>
          Some (if strict_equals_zero B (marked_total B t ''DEBE'')
                   \<and> strict_equals_zero B (marked_total B t ''HABER'')
                then ''none'' else ''block''))
   \<and> (shown_display (computeSumBar B t) = Some ''none'')
       = (closest_card t \<noteq> None
          \<and> strict_equals_zero B (marked_total B t ''DEBE'')
          \<and> strict_equals_zero B (marked_total B t ''HABER''))"
  by (simp add: shown_display_def computeSumBar_card sumMarked_total split: option.splits)

lemma sum_example_zero:
  "strict_equals_zero int_builtins (Val 100) = False
   \<and> strict_equals_zero int_builtins (Val 0) = True"
  by code_simp

text \<open>The theorem at the example table: the DEBE sum is 100, the bar is shown.\<close>

theorem C10_sum_bar_display_witness:
  "shown_display (computeSumBar int_builtins sum_table_example) = Some ''block''"
  using C10_sum_bar_display [of int_builtins sum_table_example]
  by (simp add: sum_example_DEBE sum_example_HABER sum_example_card sum_example_zero)

end
